theory Spec2Isabelle
  imports Main
begin

section \<open>Values kept in the knowledge base\<close>

text \<open>
  The store of \<^verbatim>\<open>w3af/core/data/kb/knowledge_base.py\<close> keeps pickled Python objects in
  one table of a relational database. The classes of the stored objects (Info, Vuln,
  InfoSet, Shell), the data container, the database adapter and the disk set are imported
  by that file and are not part of it; they are modelled below from the specification,
  each under a comment that says so. Everything else follows the source line by line.
\<close>

datatype error =
    TypeError | ValueError | RuntimeError | DBException | AttributeError | OperationalError

text \<open>
  Modelled from the spec: the severity constants of
  \<^verbatim>\<open>w3af.core.data.constants.severity\<close>, the enum INFORMATION, LOW, MEDIUM, HIGH.
\<close>

datatype severity = INFORMATION | LOW | MEDIUM | HIGH

text \<open>
  Modelled from the spec: the data container of a finding (the class DataContainer is
  imported from outside this file). The spec gives \<^verbatim>\<open>get_dc()\<close> as a key set or absent
  and has two containers agree when their key sets are identical, whatever the order. A
  container is the list of its entries; \<^verbatim>\<open>keys()\<close> is its set of keys, and the
  source's \<^verbatim>\<open>==\<close> on two such results is equality of sets.
\<close>

type_synonym data_container = "(string \<times> string) list"

definition keys :: "data_container \<Rightarrow> string set" where
  "keys dc = set (map fst dc)"

text \<open>
  Modelled from the spec: the capability surface of Info (and of its subclass Vuln) and of
  Shell. \<open>None\<close> for a data container is Python's \<^verbatim>\<open>None\<close>. A Shell has no severity.
\<close>

record info =
  info_uniq_id :: string
  info_url :: string
  info_token_name :: "string option"
  info_dc :: "data_container option"
  info_severity :: severity

record shell =
  shell_uniq_id :: string
  shell_url :: string
  shell_token_name :: "string option"
  shell_dc :: "data_container option"

text \<open>
  A value that is not a finding: an iterable, given by the string forms of its elements,
  or a scalar.
\<close>

datatype raw = Iterable "string list" | Scalar string

text \<open>
  A Python object as the store sees it. The state of an InfoSet is the type parameter
  \<open>'s\<close>: the class is not part of the source file, so its methods are taken as
  parameters (record \<open>env\<close> below).
\<close>

datatype 's finding = Info info | Vuln info | InfoSet 's | Shell shell

datatype 's pyobj = Finding "'s finding" | Raw raw

datatype klass = InfoK | VulnK | InfoSetK | ShellK

text \<open>\<^verbatim>\<open>isinstance(obj, cls)\<close>: Vuln is a subclass of Info; InfoSet and Shell are not.\<close>

fun isinstance :: "'s pyobj \<Rightarrow> klass \<Rightarrow> bool" where
  "isinstance (Finding (Info i)) k = (k = InfoK)"
| "isinstance (Finding (Vuln i)) k = (k = InfoK \<or> k = VulnK)"
| "isinstance (Finding (InfoSet x)) k = (k = InfoSetK)"
| "isinstance (Finding (Shell sh)) k = (k = ShellK)"
| "isinstance (Raw r) k = False"

text \<open>\<^verbatim>\<open>isinstance(obj, (c1, c2, ...))\<close> with a tuple of classes.\<close>

fun isinstance_any :: "'s pyobj \<Rightarrow> klass list \<Rightarrow> bool" where
  "isinstance_any obj [] = False"
| "isinstance_any obj (k # ks) = (isinstance obj k \<or> isinstance_any obj ks)"

text \<open>
  The collaborators the source file imports: the methods of the InfoSet class, Python's
  \<^verbatim>\<open>str(hash(...))\<close> and \<^verbatim>\<open>rand_alpha\<close> (a random string, here a function of a
  seed that the store's world advances at every call).
\<close>

record 's env =
  set_match :: "'s \<Rightarrow> 's pyobj \<Rightarrow> bool"
  set_add :: "'s \<Rightarrow> 's pyobj \<Rightarrow> 's"
  set_uniq_id :: "'s \<Rightarrow> string"
  set_url :: "'s \<Rightarrow> string"
  set_token_name :: "'s \<Rightarrow> string option"
  set_dc :: "'s \<Rightarrow> data_container option"
  set_severity :: "'s \<Rightarrow> severity option"
  str_hash :: "string \<Rightarrow> string"
  obj_hash :: "'s pyobj \<Rightarrow> string"
  rand_alpha :: "nat \<Rightarrow> nat \<Rightarrow> string"

text \<open>The methods of a finding that the store calls.\<close>

fun get_uniq_id :: "'s env \<Rightarrow> 's finding \<Rightarrow> string" where
  "get_uniq_id E (Info i) = info_uniq_id i"
| "get_uniq_id E (Vuln i) = info_uniq_id i"
| "get_uniq_id E (InfoSet x) = set_uniq_id E x"
| "get_uniq_id E (Shell sh) = shell_uniq_id sh"

fun get_url :: "'s env \<Rightarrow> 's finding \<Rightarrow> string" where
  "get_url E (Info i) = info_url i"
| "get_url E (Vuln i) = info_url i"
| "get_url E (InfoSet x) = set_url E x"
| "get_url E (Shell sh) = shell_url sh"

fun get_token_name :: "'s env \<Rightarrow> 's finding \<Rightarrow> string option" where
  "get_token_name E (Info i) = info_token_name i"
| "get_token_name E (Vuln i) = info_token_name i"
| "get_token_name E (InfoSet x) = set_token_name E x"
| "get_token_name E (Shell sh) = shell_token_name sh"

fun get_dc :: "'s env \<Rightarrow> 's finding \<Rightarrow> data_container option" where
  "get_dc E (Info i) = info_dc i"
| "get_dc E (Vuln i) = info_dc i"
| "get_dc E (InfoSet x) = set_dc E x"
| "get_dc E (Shell sh) = shell_dc sh"

text \<open>
  \<^verbatim>\<open>hasattr(obj, 'get_severity')\<close> and the call in one: \<open>None\<close> when the object has no
  such method.
\<close>

fun get_severity :: "'s env \<Rightarrow> 's pyobj \<Rightarrow> severity option" where
  "get_severity E (Finding (Info i)) = Some (info_severity i)"
| "get_severity E (Finding (Vuln i)) = Some (info_severity i)"
| "get_severity E (Finding (InfoSet x)) = set_severity E x"
| "get_severity E (Finding (Shell sh)) = None"
| "get_severity E (Raw r) = None"

text \<open>
  \<^verbatim>\<open>info_set.match(info_inst)\<close> and \<^verbatim>\<open>info_set.add(info_inst)\<close> as method calls on
  an arbitrary stored object: only an InfoSet has them.
\<close>

fun infoset_match :: "'s env \<Rightarrow> 's pyobj \<Rightarrow> 's pyobj \<Rightarrow> error + bool" where
  "infoset_match E (Finding (InfoSet x)) info_inst = Inr (set_match E x info_inst)"
| "infoset_match E obj info_inst = Inl AttributeError"

fun infoset_add :: "'s env \<Rightarrow> 's pyobj \<Rightarrow> 's pyobj \<Rightarrow> error + 's pyobj" where
  "infoset_add E (Finding (InfoSet x)) info_inst = Inr (Finding (InfoSet (set_add E x info_inst)))"
| "infoset_add E obj info_inst = Inl AttributeError"

section \<open>The store and its world\<close>

text \<open>
  An address component is a string or a named entity (a plugin) that is asked for its
  name.
\<close>

datatype location = Str string | Named string

fun get_real_name :: "location \<Rightarrow> string" where
  "get_real_name (Str data) = data"
| "get_real_name (Named name) = name"

text \<open>A row of the table: the columns location_a, location_b, uniq_id, pickle.\<close>

record 's row =
  col_location_a :: string
  col_location_b :: string
  col_uniq_id :: string
  col_pickle :: "'s pyobj"

text \<open>The notifications an observer receives: the method called and its arguments.\<close>

datatype 's event =
    APPEND string string "'s pyobj" bool
  | UPDATE "'s pyobj" "'s pyobj"
  | ADD_URL string

datatype db_handle = DefaultPersistentDB

text \<open>
  The attributes of a DBKnowledgeBase (\<open>None\<close> for an attribute that
  \<^verbatim>\<open>__init__\<close> does not set), and the part of the world the store acts on: the tables of
  the default persistent database, the seed of the random names, and the calls that the
  observers have received so far.
\<close>

record 's kb =
  initialized :: bool
  observers :: "(nat \<times> string) list"
  observer_id :: nat
  urls :: "string list option"
  fuzzable_requests :: "(string \<times> string) list option"
  db :: "db_handle option"
  table_name :: "string option"
  dbms :: "(string \<times> 's row list) list"
  seed :: nat
  notified :: "(string \<times> 's event) list"

text \<open>The result of a method: what it returns or raises, and the state it leaves.\<close>

type_synonym ('a, 's) action = "'s kb \<Rightarrow> (error + 'a) \<times> 's kb"

subsection \<open>The database adapter\<close>

text \<open>
  Modelled from the spec: the Backing Store Adapter (\<^verbatim>\<open>create_table\<close>,
  \<^verbatim>\<open>select\<close>, \<^verbatim>\<open>execute\<close> with its row count, \<^verbatim>\<open>drop_table\<close>). A table is the
  list of its rows in insertion order; a statement is a function on that list that also
  gives the number of rows it touched.
\<close>

fun put_key :: "string \<Rightarrow> 'r \<Rightarrow> (string \<times> 'r) list \<Rightarrow> (string \<times> 'r) list" where
  "put_key name rows [] = [(name, rows)]"
| "put_key name rows ((n, old) # tables) =
     (if n = name then (name, rows) # tables else (n, old) # put_key name rows tables)"

definition create_table :: "string \<Rightarrow> (string \<times> 's row list) list \<Rightarrow> (string \<times> 's row list) list" where
  "create_table name tables = put_key name [] tables"

definition drop_table :: "string \<Rightarrow> (string \<times> 's row list) list \<Rightarrow> (string \<times> 's row list) list" where
  "drop_table name tables = filter (\<lambda>t. fst t \<noteq> name) tables"

type_synonym 's statement = "'s row list \<Rightarrow> 's row list \<times> nat"

definition sql_insert :: "'s row \<Rightarrow> 's statement" where
  "sql_insert t rows = (rows @ [t], 1)"

definition sql_delete :: "('s row \<Rightarrow> bool) \<Rightarrow> 's statement" where
  "sql_delete cond rows = (filter (\<lambda>r. \<not> cond r) rows, length (filter cond rows))"

definition sql_update :: "('s row \<Rightarrow> 's row) \<Rightarrow> ('s row \<Rightarrow> bool) \<Rightarrow> 's statement" where
  "sql_update assign cond rows =
     (map (\<lambda>r. if cond r then assign r else r) rows, length (filter cond rows))"

text \<open>
  \<^verbatim>\<open>self.db.select(query % self.table_name, params)\<close>: an attribute that is not set
  raises AttributeError, a table that does not exist an OperationalError.
\<close>

definition db_select :: "('s row \<Rightarrow> bool) \<Rightarrow> 's kb \<Rightarrow> error + 's row list" where
  "db_select cond s =
     (case db s of
        None \<Rightarrow> Inl AttributeError
      | Some handle \<Rightarrow>
          (case table_name s of
             None \<Rightarrow> Inl AttributeError
           | Some name \<Rightarrow>
               (case map_of (dbms s) name of
                  None \<Rightarrow> Inl OperationalError
                | Some rows \<Rightarrow> Inr (filter cond rows))))"

text \<open>\<^verbatim>\<open>self.db.execute(query % self.table_name, params)\<close>, returning the row count.\<close>

definition db_execute :: "'s statement \<Rightarrow> (nat, 's) action" where
  "db_execute stmt s =
     (case db s of
        None \<Rightarrow> (Inl AttributeError, s)
      | Some handle \<Rightarrow>
          (case table_name s of
             None \<Rightarrow> (Inl AttributeError, s)
           | Some name \<Rightarrow>
               (case map_of (dbms s) name of
                  None \<Rightarrow> (Inl OperationalError, s)
                | Some rows \<Rightarrow>
                    (Inr (snd (stmt rows)),
                     s\<lparr>dbms := put_key name (fst (stmt rows)) (dbms s)\<rparr>))))"

subsection \<open>Construction, lazy initialisation, observers\<close>

text \<open>\<^verbatim>\<open>DBKnowledgeBase.__init__\<close>, in a world with the given tables and seed.\<close>

definition init_kb :: "(string \<times> 's row list) list \<Rightarrow> nat \<Rightarrow> 's kb" where
  "init_kb tables n =
     \<lparr>initialized = False, observers = [], observer_id = 0, urls = None,
      fuzzable_requests = None, db = None, table_name = None,
      dbms = tables, seed = n, notified = []\<rparr>"

text \<open>
  \<^verbatim>\<open>DBKnowledgeBase.setup\<close>. The lock is not modelled: the embedding is sequential.
  \<^verbatim>\<open>DiskSet(table_prefix=...)\<close> is a new, empty set.
\<close>

definition setup_kb :: "'s env \<Rightarrow> 's kb \<Rightarrow> 's kb" where
  "setup_kb E s =
     (if initialized s then s
      else
        (let name = ''knowledge_base_'' @ rand_alpha E (seed s) 30
         in s\<lparr>initialized := True,
              urls := Some [],
              fuzzable_requests := Some [],
              db := Some DefaultPersistentDB,
              table_name := Some name,
              dbms := create_table name (dbms s),
              seed := Suc (seed s)\<rparr>))"

text \<open>The decorator \<^verbatim>\<open>requires_setup\<close>.\<close>

definition requires_setup :: "'s env \<Rightarrow> ('s kb \<Rightarrow> 'r) \<Rightarrow> 's kb \<Rightarrow> 'r" where
  "requires_setup E method s = method (if \<not> initialized s then setup_kb E s else s)"

definition get_observer_id :: "(nat, 's) action" where
  "get_observer_id s = (Inr (Suc (observer_id s)), s\<lparr>observer_id := Suc (observer_id s)\<rparr>)"

definition add_observer :: "string \<Rightarrow> (unit, 's) action" where
  "add_observer observer s =
     (case get_observer_id s of
        (Inl e, s') \<Rightarrow> (Inl e, s')
      | (Inr oid, s') \<Rightarrow> (Inr (), s'\<lparr>observers := observers s' @ [(oid, observer)]\<rparr>))"

text \<open>
  \<^verbatim>\<open>_notify_observers\<close>: every registered observer receives the call. What an observer
  does with it is not part of the store; the call is recorded.
\<close>

definition notify_observers :: "'s event \<Rightarrow> 's kb \<Rightarrow> 's kb" where
  "notify_observers ev s =
     s\<lparr>notified := notified s @ map (\<lambda>(oid, observer). (observer, ev)) (observers s)\<rparr>"

subsection \<open>Primitive operations of DBKnowledgeBase\<close>

definition clear :: "'s env \<Rightarrow> location \<Rightarrow> string \<Rightarrow> (unit, 's) action" where
  "clear E location_a location_b =
     requires_setup E (\<lambda>s.
       let la = get_real_name location_a
       in case db_execute
                 (sql_delete (\<lambda>r. col_location_a r = la \<and> col_location_b r = location_b)) s of
            (Inl e, s') \<Rightarrow> (Inl e, s')
          | (Inr n, s') \<Rightarrow> (Inr (), s'))"

text \<open>
  \<^verbatim>\<open>_get_uniq_id\<close>: an Info or InfoSet gives its own identity; for anything else the
  hash of the joined string forms of an iterable, or the hash of the object.
\<close>

fun kb_get_uniq_id :: "'s env \<Rightarrow> 's pyobj \<Rightarrow> string" where
  "kb_get_uniq_id E (Finding (Info i)) = get_uniq_id E (Info i)"
| "kb_get_uniq_id E (Finding (Vuln i)) = get_uniq_id E (Vuln i)"
| "kb_get_uniq_id E (Finding (InfoSet x)) = get_uniq_id E (InfoSet x)"
| "kb_get_uniq_id E (Finding (Shell sh)) = obj_hash E (Finding (Shell sh))"
| "kb_get_uniq_id E (Raw (Iterable elems)) = str_hash E (concat elems)"
| "kb_get_uniq_id E (Raw (Scalar x)) = obj_hash E (Raw (Scalar x))"

definition append_kb ::
  "'s env \<Rightarrow> location \<Rightarrow> string \<Rightarrow> 's pyobj \<Rightarrow> bool \<Rightarrow> (unit, 's) action" where
  "append_kb E location_a location_b val ignore_type =
     requires_setup E (\<lambda>s.
       if \<not> ignore_type \<and> \<not> isinstance_any val [InfoK, ShellK, InfoSetK]
       then (Inl TypeError, s)
       else
         (let la = get_real_name location_a;
              uniq_id = kb_get_uniq_id E val;
              t = \<lparr>col_location_a = la, col_location_b = location_b,
                   col_uniq_id = uniq_id, col_pickle = val\<rparr>
          in case db_execute (sql_insert t) s of
               (Inl e, s') \<Rightarrow> (Inl e, s')
             | (Inr n, s') \<Rightarrow>
                 (Inr (), notify_observers (APPEND la location_b val ignore_type) s')))"

text \<open>The loop of \<^verbatim>\<open>get\<close> over the selected rows; unpickling gives the stored object.\<close>

fun get_loop :: "bool \<Rightarrow> 's row list \<Rightarrow> 's pyobj list \<Rightarrow> error + 's pyobj list" where
  "get_loop check_types [] result_lst = Inr result_lst"
| "get_loop check_types (r # results) result_lst =
     (let obj = col_pickle r
      in if check_types \<and> \<not> isinstance_any obj [InfoK, InfoSetK, ShellK]
         then Inl TypeError
         else get_loop check_types results (result_lst @ [obj]))"

text \<open>\<^verbatim>\<open>get\<close>: \<open>location_b = None\<close> selects every row under \<open>location_a\<close>.\<close>

definition get ::
  "'s env \<Rightarrow> location \<Rightarrow> string option \<Rightarrow> bool \<Rightarrow> ('s pyobj list, 's) action" where
  "get E location_a location_b check_types =
     requires_setup E (\<lambda>s.
       let la = get_real_name location_a;
           cond = (case location_b of
                     None \<Rightarrow> (\<lambda>r. col_location_a r = la)
                   | Some lb \<Rightarrow> (\<lambda>r. col_location_a r = la \<and> col_location_b r = lb))
       in case db_select cond s of
            Inl e \<Rightarrow> (Inl e, s)
          | Inr results \<Rightarrow> (get_loop check_types results [], s))"

definition raw_write :: "'s env \<Rightarrow> location \<Rightarrow> string \<Rightarrow> 's pyobj \<Rightarrow> (unit, 's) action" where
  "raw_write E location_a location_b val =
     requires_setup E (\<lambda>s.
       if isinstance val InfoK then (Inl TypeError, s)
       else
         (let la = get_real_name location_a
          in case clear E (Str la) location_b s of
               (Inl e, s') \<Rightarrow> (Inl e, s')
             | (Inr u, s') \<Rightarrow> append_kb E (Str la) location_b val True s'))"

text \<open>What \<^verbatim>\<open>raw_read\<close> and \<^verbatim>\<open>get_one\<close> return: the list \<^verbatim>\<open>[]\<close> or one object.\<close>

datatype 's read_result = Empty_list | Single "'s pyobj"

definition raw_read :: "'s env \<Rightarrow> location \<Rightarrow> string option \<Rightarrow> ('s read_result, 's) action" where
  "raw_read E location_a location_b =
     requires_setup E (\<lambda>s.
       let la = get_real_name location_a
       in case get E (Str la) location_b False s of
            (Inl e, s') \<Rightarrow> (Inl e, s')
          | (Inr result, s') \<Rightarrow>
              (if length result > 1 then (Inl RuntimeError, s')
               else if length result = 0 then (Inr Empty_list, s')
               else (Inr (Single (result ! 0)), s')))"

definition get_one :: "'s env \<Rightarrow> location \<Rightarrow> string option \<Rightarrow> ('s read_result, 's) action" where
  "get_one E location_a location_b =
     requires_setup E (\<lambda>s.
       let la = get_real_name location_a
       in case get E (Str la) location_b True s of
            (Inl e, s') \<Rightarrow> (Inl e, s')
          | (Inr result, s') \<Rightarrow>
              (if length result > 1 then (Inl RuntimeError, s')
               else if length result = 0 then (Inr Empty_list, s')
               else (Inr (Single (result ! 0)), s')))"

text \<open>\<^verbatim>\<open>get_by_uniq_id\<close>: \<^verbatim>\<open>select_one\<close> gives the first selected row or None.\<close>

definition get_by_uniq_id :: "'s env \<Rightarrow> string \<Rightarrow> ('s pyobj option, 's) action" where
  "get_by_uniq_id E uniq_id =
     requires_setup E (\<lambda>s.
       case db_select (\<lambda>r. col_uniq_id r = uniq_id) s of
         Inl e \<Rightarrow> (Inl e, s)
       | Inr [] \<Rightarrow> (Inr None, s)
       | Inr (r # rest) \<Rightarrow> (Inr (Some (col_pickle r)), s))"

text \<open>
  \<^verbatim>\<open>update\<close>: one UPDATE statement rewrites the pickle and the uniq_id of every row
  whose uniq_id is the old object's; the call fails when the row count is zero.
\<close>

definition update :: "'s env \<Rightarrow> 's pyobj \<Rightarrow> 's pyobj \<Rightarrow> (unit, 's) action" where
  "update E old_info update_info =
     requires_setup E (\<lambda>s.
       let old_not_info = \<not> isinstance_any old_info [InfoK, InfoSetK, ShellK];
           update_not_info = \<not> isinstance_any update_info [InfoK, InfoSetK, ShellK]
       in if old_not_info \<or> update_not_info then (Inl TypeError, s)
          else
            (case (old_info, update_info) of
               (Finding old, Finding new) \<Rightarrow>
                 (let old_uniq_id = get_uniq_id E old;
                      new_uniq_id = get_uniq_id E new;
                      pickle = update_info
                  in case db_execute
                            (sql_update
                               (\<lambda>r. r\<lparr>col_pickle := pickle, col_uniq_id := new_uniq_id\<rparr>)
                               (\<lambda>r. col_uniq_id r = old_uniq_id)) s of
                       (Inl e, s') \<Rightarrow> (Inl e, s')
                     | (Inr rowcount, s') \<Rightarrow>
                         (if rowcount \<noteq> 0
                          then (Inr (), notify_observers (UPDATE old_info update_info) s')
                          else (Inl DBException, s')))
             | _ \<Rightarrow> (Inl AttributeError, s)))"

subsection \<open>Bulk queries\<close>

fun entries_loop :: "klass list \<Rightarrow> 's row list \<Rightarrow> 's pyobj list \<Rightarrow> 's pyobj list" where
  "entries_loop klass [] result_lst = result_lst"
| "entries_loop klass (r # results) result_lst =
     (let obj = col_pickle r
      in if isinstance_any obj klass then entries_loop klass results (result_lst @ [obj])
         else entries_loop klass results result_lst)"

definition get_all_entries_of_class :: "'s env \<Rightarrow> klass list \<Rightarrow> ('s pyobj list, 's) action" where
  "get_all_entries_of_class E klass =
     requires_setup E (\<lambda>s.
       case db_select (\<lambda>r. True) s of
         Inl e \<Rightarrow> (Inl e, s)
       | Inr results \<Rightarrow> (Inr (entries_loop klass results []), s))"

fun vulns_loop :: "'s env \<Rightarrow> 's row list \<Rightarrow> 's pyobj list \<Rightarrow> 's pyobj list" where
  "vulns_loop E [] result_lst = result_lst"
| "vulns_loop E (r # results) result_lst =
     (let obj = col_pickle r
      in case get_severity E obj of
           None \<Rightarrow> vulns_loop E results result_lst
         | Some severity \<Rightarrow>
             (if severity \<in> set [LOW, MEDIUM, HIGH]
              then vulns_loop E results (result_lst @ [obj])
              else vulns_loop E results result_lst))"

definition get_all_vulns :: "'s env \<Rightarrow> ('s pyobj list, 's) action" where
  "get_all_vulns E =
     requires_setup E (\<lambda>s.
       case db_select (\<lambda>r. True) s of
         Inl e \<Rightarrow> (Inl e, s)
       | Inr results \<Rightarrow> (Inr (vulns_loop E results []), s))"

fun infos_loop :: "'s env \<Rightarrow> 's row list \<Rightarrow> 's pyobj list \<Rightarrow> 's pyobj list" where
  "infos_loop E [] result_lst = result_lst"
| "infos_loop E (r # results) result_lst =
     (let obj = col_pickle r
      in case get_severity E obj of
           None \<Rightarrow> infos_loop E results result_lst
         | Some severity \<Rightarrow>
             (if severity \<in> set [INFORMATION]
              then infos_loop E results (result_lst @ [obj])
              else infos_loop E results result_lst))"

definition get_all_infos :: "'s env \<Rightarrow> ('s pyobj list, 's) action" where
  "get_all_infos E =
     requires_setup E (\<lambda>s.
       case db_select (\<lambda>r. True) s of
         Inl e \<Rightarrow> (Inl e, s)
       | Inr results \<Rightarrow> (Inr (infos_loop E results []), s))"

definition get_all_findings :: "'s env \<Rightarrow> ('s pyobj list, 's) action" where
  "get_all_findings E = get_all_entries_of_class E [InfoK, InfoSetK, VulnK]"

text \<open>
  \<^verbatim>\<open>get_all_shells\<close>: the url opener and worker pool that the caller injects are live
  resources outside the stored value, so the shells are returned as stored.
\<close>

definition get_all_shells :: "'s env \<Rightarrow> 'c option \<Rightarrow> ('s pyobj list, 's) action" where
  "get_all_shells E w3af_core = get_all_entries_of_class E [ShellK]"

text \<open>
  \<^verbatim>\<open>dump\<close>: the nested dictionary location_a, location_b, list of objects, as
  association lists.
\<close>

fun dump_loop ::
  "'s row list \<Rightarrow> (string \<times> (string \<times> 's pyobj list) list) list
     \<Rightarrow> (string \<times> (string \<times> 's pyobj list) list) list" where
  "dump_loop [] result_dict = result_dict"
| "dump_loop (r # results) result_dict =
     (let location_a = col_location_a r; location_b = col_location_b r; obj = col_pickle r
      in case map_of result_dict location_a of
           None \<Rightarrow> dump_loop results (put_key location_a [(location_b, [obj])] result_dict)
         | Some inner \<Rightarrow>
             (case map_of inner location_b of
                None \<Rightarrow>
                  dump_loop results
                    (put_key location_a (put_key location_b [obj] inner) result_dict)
              | Some objs \<Rightarrow>
                  dump_loop results
                    (put_key location_a (put_key location_b (objs @ [obj]) inner) result_dict)))"

definition dump ::
  "'s env \<Rightarrow> ((string \<times> (string \<times> 's pyobj list) list) list, 's) action" where
  "dump E =
     requires_setup E (\<lambda>s.
       case db_select (\<lambda>r. True) s of
         Inl e \<Rightarrow> (Inl e, s)
       | Inr results \<Rightarrow> (Inr (dump_loop results []), s))"

subsection \<open>Coverage sets and lifecycle\<close>

text \<open>
  Modelled from the spec: the Coverage Set Adapter (DiskSet). \<^verbatim>\<open>add(item)\<close> returns
  whether the item was new; \<^verbatim>\<open>cleanup()\<close> discards the content.
\<close>

definition diskset_add :: "'a \<Rightarrow> 'a list \<Rightarrow> bool \<times> 'a list" where
  "diskset_add item items = (if item \<in> set items then (False, items) else (True, items @ [item]))"

text \<open>The argument of \<^verbatim>\<open>add_url\<close>: a URL object or something else.\<close>

datatype url_arg = URL string | NotURL

text \<open>
  The argument of \<^verbatim>\<open>add_fuzzable_request\<close>: a FuzzableRequest, given by its URL and its
  normalised shape, or something else.
\<close>

datatype fr_arg = FuzzableRequest string string | NotFuzzableRequest

definition cleanup :: "'s env \<Rightarrow> (unit, 's) action" where
  "cleanup E =
     requires_setup E (\<lambda>s.
       case db_execute (sql_delete (\<lambda>r. True)) s of
         (Inl e, s1) \<Rightarrow> (Inl e, s1)
       | (Inr n, s1) \<Rightarrow>
           (case urls s1 of
              None \<Rightarrow> (Inl AttributeError, s1)
            | Some old_urls \<Rightarrow>
                (let s2 = s1\<lparr>urls := Some []\<rparr>
                 in case fuzzable_requests s2 of
                      None \<Rightarrow> (Inl AttributeError, s2)
                    | Some old_requests \<Rightarrow>
                        (Inr (), s2\<lparr>fuzzable_requests := Some [], observers := []\<rparr>))))"

definition remove_kb :: "'s env \<Rightarrow> (unit, 's) action" where
  "remove_kb E =
     requires_setup E (\<lambda>s.
       case db s of
         None \<Rightarrow> (Inl AttributeError, s)
       | Some handle \<Rightarrow>
           (case table_name s of
              None \<Rightarrow> (Inl AttributeError, s)
            | Some name \<Rightarrow>
                (case map_of (dbms s) name of
                   None \<Rightarrow> (Inl OperationalError, s)
                 | Some rows \<Rightarrow>
                     (let s1 = s\<lparr>dbms := drop_table name (dbms s)\<rparr>
                      in case urls s1 of
                           None \<Rightarrow> (Inl AttributeError, s1)
                         | Some old_urls \<Rightarrow>
                             (let s2 = s1\<lparr>urls := Some []\<rparr>
                              in case fuzzable_requests s2 of
                                   None \<Rightarrow> (Inl AttributeError, s2)
                                 | Some old_requests \<Rightarrow>
                                     (Inr (), s2\<lparr>fuzzable_requests := Some [],
                                                 observers := []\<rparr>))))))"

definition get_all_known_urls :: "'s env \<Rightarrow> (string list, 's) action" where
  "get_all_known_urls E =
     requires_setup E (\<lambda>s.
       case urls s of None \<Rightarrow> (Inl AttributeError, s) | Some known \<Rightarrow> (Inr known, s))"

text \<open>
  \<^verbatim>\<open>add_url\<close>: the type check, then the notification, then the disk set's
  \<^verbatim>\<open>add\<close>, whose result is returned.
\<close>

definition add_url :: "'s env \<Rightarrow> url_arg \<Rightarrow> (bool, 's) action" where
  "add_url E url =
     requires_setup E (\<lambda>s.
       case url of
         NotURL \<Rightarrow> (Inl TypeError, s)
       | URL u \<Rightarrow>
           (let s1 = notify_observers (ADD_URL u) s
            in case urls s1 of
                 None \<Rightarrow> (Inl AttributeError, s1)
               | Some known \<Rightarrow>
                   (Inr (fst (diskset_add u known)),
                    s1\<lparr>urls := Some (snd (diskset_add u known))\<rparr>)))"

definition get_all_known_fuzzable_requests :: "'s env \<Rightarrow> ((string \<times> string) list, 's) action" where
  "get_all_known_fuzzable_requests E =
     requires_setup E (\<lambda>s.
       case fuzzable_requests s of
         None \<Rightarrow> (Inl AttributeError, s)
       | Some known \<Rightarrow> (Inr known, s))"

definition add_fuzzable_request :: "'s env \<Rightarrow> fr_arg \<Rightarrow> (bool, 's) action" where
  "add_fuzzable_request E fuzzable_request =
     requires_setup E (\<lambda>s.
       case fuzzable_request of
         NotFuzzableRequest \<Rightarrow> (Inl TypeError, s)
       | FuzzableRequest u shape \<Rightarrow>
           (case add_url E (URL u) s of
              (Inl e, s1) \<Rightarrow> (Inl e, s1)
            | (Inr was_new, s1) \<Rightarrow>
                (case fuzzable_requests s1 of
                   None \<Rightarrow> (Inl AttributeError, s1)
                 | Some known \<Rightarrow>
                     (Inr (fst (diskset_add (u, shape) known)),
                      s1\<lparr>fuzzable_requests := Some (snd (diskset_add (u, shape) known))\<rparr>))))"

section \<open>Deduplication and grouping (BasicKnowledgeBase)\<close>

text \<open>
  The loops of \<^verbatim>\<open>filter_url\<close> and \<^verbatim>\<open>filter_var\<close> over the objects that
  \<^verbatim>\<open>get\<close> returned. An object that is no finding has none of the methods called.
\<close>

fun filter_url_loop :: "'s env \<Rightarrow> 's pyobj list \<Rightarrow> 's pyobj \<Rightarrow> error + bool" where
  "filter_url_loop E [] info_inst = Inr True"
| "filter_url_loop E (saved_vuln # saved) info_inst =
     (case (saved_vuln, info_inst) of
        (Finding sv, Finding ii) \<Rightarrow>
          (if get_url E sv = get_url E ii then Inr False
           else filter_url_loop E saved info_inst)
      | _ \<Rightarrow> Inl AttributeError)"

definition filter_url :: "'s env \<Rightarrow> location \<Rightarrow> string \<Rightarrow> 's pyobj \<Rightarrow> (bool, 's) action" where
  "filter_url E location_a location_b info_inst s =
     (case get E location_a (Some location_b) True s of
        (Inl e, s') \<Rightarrow> (Inl e, s')
      | (Inr saved, s') \<Rightarrow> (filter_url_loop E saved info_inst, s'))"

fun filter_var_loop :: "'s env \<Rightarrow> 's pyobj list \<Rightarrow> 's pyobj \<Rightarrow> error + bool" where
  "filter_var_loop E [] info_inst = Inr True"
| "filter_var_loop E (saved_vuln # saved) info_inst =
     (case (saved_vuln, info_inst) of
        (Finding sv, Finding ii) \<Rightarrow>
          (if get_token_name E sv = get_token_name E ii \<and> get_url E sv = get_url E ii
           then
             (if get_dc E sv = None \<and> get_dc E ii = None then Inr False
              else
                (case (get_dc E sv, get_dc E ii) of
                   (Some saved_dc, Some inst_dc) \<Rightarrow>
                     (if keys saved_dc = keys inst_dc then Inr False
                      else filter_var_loop E saved info_inst)
                 | _ \<Rightarrow> filter_var_loop E saved info_inst))
           else filter_var_loop E saved info_inst)
      | _ \<Rightarrow> Inl AttributeError)"

definition filter_var :: "'s env \<Rightarrow> location \<Rightarrow> string \<Rightarrow> 's pyobj \<Rightarrow> (bool, 's) action" where
  "filter_var E location_a location_b info_inst s =
     (case get E location_a (Some location_b) True s of
        (Inl e, s') \<Rightarrow> (Inl e, s')
      | (Inr saved, s') \<Rightarrow> (filter_var_loop E saved info_inst, s'))"

text \<open>The dictionary \<^verbatim>\<open>self.FILTERS\<close>.\<close>

definition FILTERS ::
  "string \<Rightarrow> ('s env \<Rightarrow> location \<Rightarrow> string \<Rightarrow> 's pyobj \<Rightarrow> (bool, 's) action) option" where
  "FILTERS filter_by =
     (if filter_by = ''URL'' then Some filter_url
      else if filter_by = ''VAR'' then Some filter_var
      else None)"

definition append_uniq ::
  "'s env \<Rightarrow> location \<Rightarrow> string \<Rightarrow> 's pyobj \<Rightarrow> string \<Rightarrow> (bool, 's) action" where
  "append_uniq E location_a location_b info_inst filter_by s =
     (if \<not> isinstance info_inst InfoK then (Inl ValueError, s)
      else
        (case FILTERS filter_by of
           None \<Rightarrow> (Inl ValueError, s)
         | Some filter_function \<Rightarrow>
             (case filter_function E location_a location_b info_inst s of
                (Inl e, s1) \<Rightarrow> (Inl e, s1)
              | (Inr True, s1) \<Rightarrow>
                  (case append_kb E location_a location_b info_inst False s1 of
                     (Inl e, s2) \<Rightarrow> (Inl e, s2)
                   | (Inr u, s2) \<Rightarrow> (Inr True, s2))
              | (Inr False, s1) \<Rightarrow> (Inr False, s1))))"

text \<open>
  The argument \<^verbatim>\<open>group_klass\<close>: a subclass of InfoSet, given by its constructor, or
  some other class.
\<close>

datatype 's group_klass = InfoSetSubclass "'s pyobj list \<Rightarrow> 's" | OtherClass

text \<open>
  The \<^verbatim>\<open>for ... else\<close> loop of \<^verbatim>\<open>append_uniq_group\<close>. A deep copy of an immutable
  value is the value; the InfoSet after \<^verbatim>\<open>add\<close> is the live object that is returned.
\<close>

fun group_loop ::
  "'s env \<Rightarrow> location \<Rightarrow> string \<Rightarrow> 's pyobj \<Rightarrow> ('s pyobj list \<Rightarrow> 's) \<Rightarrow> 's pyobj list
     \<Rightarrow> ('s pyobj \<times> bool, 's) action" where
  "group_loop E location_a location_b info_inst ctor [] s =
     (let info_set = Finding (InfoSet (ctor [info_inst]))
      in case append_kb E location_a location_b info_set False s of
           (Inl e, s') \<Rightarrow> (Inl e, s')
         | (Inr u, s') \<Rightarrow> (Inr (info_set, True), s'))"
| "group_loop E location_a location_b info_inst ctor (info_set # rest) s =
     (if \<not> isinstance info_set InfoSetK
      then group_loop E location_a location_b info_inst ctor rest s
      else
        (case infoset_match E info_set info_inst of
           Inl e \<Rightarrow> (Inl e, s)
         | Inr False \<Rightarrow> group_loop E location_a location_b info_inst ctor rest s
         | Inr True \<Rightarrow>
             (let old_info_set = info_set
              in case infoset_add E info_set info_inst of
                   Inl e \<Rightarrow> (Inl e, s)
                 | Inr added \<Rightarrow>
                     (case update E old_info_set added s of
                        (Inl e, s') \<Rightarrow> (Inl e, s')
                      | (Inr u, s') \<Rightarrow> (Inr (added, False), s')))))"

definition append_uniq_group ::
  "'s env \<Rightarrow> location \<Rightarrow> string \<Rightarrow> 's pyobj \<Rightarrow> 's group_klass
     \<Rightarrow> ('s pyobj \<times> bool, 's) action" where
  "append_uniq_group E location_a location_b info_inst group_klass s =
     (if \<not> isinstance info_inst InfoK then (Inl TypeError, s)
      else
        (case group_klass of
           OtherClass \<Rightarrow> (Inl TypeError, s)
         | InfoSetSubclass ctor \<Rightarrow>
             (case get E location_a (Some location_b) True s of
                (Inl e, s') \<Rightarrow> (Inl e, s')
              | (Inr results, s') \<Rightarrow>
                  group_loop E location_a location_b info_inst ctor results s')))"

section \<open>Vocabulary for the statements\<close>

text \<open>
  A store is ready when \<^verbatim>\<open>setup\<close> has run and the table it created exists. Its table is
  the list of rows under the store's table name.
\<close>

definition ready :: "'s kb \<Rightarrow> bool" where
  "ready s =
     (initialized s \<and> db s \<noteq> None \<and> urls s \<noteq> None \<and> fuzzable_requests s \<noteq> None \<and>
      (case table_name s of None \<Rightarrow> False | Some name \<Rightarrow> map_of (dbms s) name \<noteq> None))"

definition table :: "'s kb \<Rightarrow> 's row list" where
  "table s =
     (case table_name s of
        None \<Rightarrow> []
      | Some name \<Rightarrow> (case map_of (dbms s) name of None \<Rightarrow> [] | Some rows \<Rightarrow> rows))"

definition write_table :: "'s row list \<Rightarrow> 's kb \<Rightarrow> 's kb" where
  "write_table rows s =
     (case table_name s of
        None \<Rightarrow> s
      | Some name \<Rightarrow> s\<lparr>dbms := put_key name rows (dbms s)\<rparr>)"

text \<open>The rows and the stored objects at an address.\<close>

definition rows_at :: "string \<Rightarrow> string \<Rightarrow> 's kb \<Rightarrow> 's row list" where
  "rows_at la lb s = filter (\<lambda>r. col_location_a r = la \<and> col_location_b r = lb) (table s)"

text \<open>The rows that \<^verbatim>\<open>get\<close> selects: \<open>None\<close> for location_b selects all under location_a.\<close>

definition rows_under :: "string \<Rightarrow> string option \<Rightarrow> 's kb \<Rightarrow> 's row list" where
  "rows_under la lb s =
     filter (\<lambda>r. col_location_a r = la \<and> (case lb of None \<Rightarrow> True | Some b \<Rightarrow> col_location_b r = b))
       (table s)"

text \<open>Every stored object, in the order of the table.\<close>

definition stored :: "'s kb \<Rightarrow> 's pyobj list" where
  "stored s = map col_pickle (table s)"

definition objs_at :: "string \<Rightarrow> string \<Rightarrow> 's kb \<Rightarrow> 's pyobj list" where
  "objs_at la lb s = map col_pickle (rows_at la lb s)"

text \<open>
  A stored object is a matching set for \<open>info_inst\<close> when it is an InfoSet whose
  \<^verbatim>\<open>match\<close> accepts it.
\<close>

definition matching_set :: "'s env \<Rightarrow> 's pyobj \<Rightarrow> 's pyobj \<Rightarrow> bool" where
  "matching_set E info_inst obj =
     (case obj of Finding (InfoSet x) \<Rightarrow> set_match E x info_inst | _ \<Rightarrow> False)"

text \<open>
  Every row that holds an InfoSet carries that InfoSet's identity in its uniq_id column, as
  \<^verbatim>\<open>append\<close> and \<^verbatim>\<open>update\<close> write it.
\<close>

definition identified :: "'s env \<Rightarrow> 's kb \<Rightarrow> bool" where
  "identified E s =
     list_all (\<lambda>r. case col_pickle r of
                       Finding (InfoSet x) \<Rightarrow> col_uniq_id r = set_uniq_id E x
                     | _ \<Rightarrow> True) (table s)"

text \<open>
  The rule of the VAR filter in the spec's words: a stored object matches the candidate when
  it is a finding with the same token name, the same URL and, for the data containers,
  both absent or both present with the same key set. The loop of \<^verbatim>\<open>filter_var\<close> is
  shown below to compute exactly this.
\<close>

definition same_var :: "'s env \<Rightarrow> 's finding \<Rightarrow> 's pyobj \<Rightarrow> bool" where
  "same_var E candidate obj =
     (case obj of
        Finding saved \<Rightarrow>
          get_token_name E saved = get_token_name E candidate
          \<and> get_url E saved = get_url E candidate
          \<and> map_option keys (get_dc E saved) = map_option keys (get_dc E candidate)
      | Raw r \<Rightarrow> False)"

definition is_finding :: "'s pyobj \<Rightarrow> bool" where
  "is_finding obj = isinstance_any obj [InfoK, InfoSetK, ShellK]"

text \<open>What a call returned, as a list: empty when it raised.\<close>

definition returned :: "(error + 'a list) \<times> 's kb \<Rightarrow> 'a list" where
  "returned outcome = (case fst outcome of Inl e \<Rightarrow> [] | Inr result \<Rightarrow> result)"

definition known_urls :: "'s kb \<Rightarrow> string list" where
  "known_urls s = (case urls s of None \<Rightarrow> [] | Some known \<Rightarrow> known)"

section \<open>The public operations\<close>

text \<open>
  The public methods of BasicKnowledgeBase and DBKnowledgeBase with their arguments, and
  the state a call leaves, whether it returned or raised.
\<close>

datatype 's operation =
    Op_setup
  | Op_clear location string
  | Op_raw_write location string "'s pyobj"
  | Op_raw_read location "string option"
  | Op_get_one location "string option"
  | Op_append location string "'s pyobj" bool
  | Op_get location "string option" bool
  | Op_get_by_uniq_id string
  | Op_update "'s pyobj" "'s pyobj"
  | Op_add_observer string
  | Op_get_observer_id
  | Op_get_all_entries_of_class "klass list"
  | Op_get_all_vulns
  | Op_get_all_infos
  | Op_dump
  | Op_cleanup
  | Op_remove
  | Op_get_all_known_urls
  | Op_add_url url_arg
  | Op_get_all_known_fuzzable_requests
  | Op_add_fuzzable_request fr_arg
  | Op_append_uniq location string "'s pyobj" string
  | Op_filter_url location string "'s pyobj"
  | Op_filter_var location string "'s pyobj"
  | Op_append_uniq_group location string "'s pyobj" "'s group_klass"
  | Op_get_all_findings
  | Op_get_all_shells "unit option"

fun state_after :: "'s env \<Rightarrow> 's operation \<Rightarrow> 's kb \<Rightarrow> 's kb" where
  "state_after E Op_setup s = setup_kb E s"
| "state_after E (Op_clear a b) s = snd (clear E a b s)"
| "state_after E (Op_raw_write a b v) s = snd (raw_write E a b v s)"
| "state_after E (Op_raw_read a b) s = snd (raw_read E a b s)"
| "state_after E (Op_get_one a b) s = snd (get_one E a b s)"
| "state_after E (Op_append a b v ignore_type) s = snd (append_kb E a b v ignore_type s)"
| "state_after E (Op_get a b check_types) s = snd (get E a b check_types s)"
| "state_after E (Op_get_by_uniq_id uid) s = snd (get_by_uniq_id E uid s)"
| "state_after E (Op_update old new) s = snd (update E old new s)"
| "state_after E (Op_add_observer observer) s = snd (add_observer observer s)"
| "state_after E Op_get_observer_id s = snd (get_observer_id s)"
| "state_after E (Op_get_all_entries_of_class klass) s = snd (get_all_entries_of_class E klass s)"
| "state_after E Op_get_all_vulns s = snd (get_all_vulns E s)"
| "state_after E Op_get_all_infos s = snd (get_all_infos E s)"
| "state_after E Op_dump s = snd (dump E s)"
| "state_after E Op_cleanup s = snd (cleanup E s)"
| "state_after E Op_remove s = snd (remove_kb E s)"
| "state_after E Op_get_all_known_urls s = snd (get_all_known_urls E s)"
| "state_after E (Op_add_url url) s = snd (add_url E url s)"
| "state_after E Op_get_all_known_fuzzable_requests s = snd (get_all_known_fuzzable_requests E s)"
| "state_after E (Op_add_fuzzable_request fr) s = snd (add_fuzzable_request E fr s)"
| "state_after E (Op_append_uniq a b i filter_by) s = snd (append_uniq E a b i filter_by s)"
| "state_after E (Op_filter_url a b i) s = snd (filter_url E a b i s)"
| "state_after E (Op_filter_var a b i) s = snd (filter_var E a b i s)"
| "state_after E (Op_append_uniq_group a b i group_klass) s =
     snd (append_uniq_group E a b i group_klass s)"
| "state_after E Op_get_all_findings s = snd (get_all_findings E s)"
| "state_after E (Op_get_all_shells w3af_core) s = snd (get_all_shells E w3af_core s)"

text \<open>
  The operations that reach \<^verbatim>\<open>setup\<close> on a store that is not initialised: \<^verbatim>\<open>setup\<close>
  itself, every method under the decorator \<^verbatim>\<open>requires_setup\<close>, and the methods of
  BasicKnowledgeBase that call one of those, \<^verbatim>\<open>append_uniq\<close> and
  \<^verbatim>\<open>append_uniq_group\<close> only after their argument checks. \<^verbatim>\<open>add_observer\<close> and
  \<^verbatim>\<open>get_observer_id\<close> are not decorated and call no decorated method.
\<close>

fun triggers_setup :: "'s operation \<Rightarrow> bool" where
  "triggers_setup (Op_add_observer observer) = False"
| "triggers_setup Op_get_observer_id = False"
| "triggers_setup (Op_append_uniq a b i filter_by) =
     (isinstance i InfoK \<and> (filter_by = ''URL'' \<or> filter_by = ''VAR''))"
| "triggers_setup (Op_append_uniq_group a b i OtherClass) = False"
| "triggers_setup (Op_append_uniq_group a b i (InfoSetSubclass ctor)) = isinstance i InfoK"
| "triggers_setup op = True"

section \<open>Example values\<close>

text \<open>
  A small InfoSet class for the concrete instances below: the state is the list of the
  members, two findings match a set when they share the URL of its first member, and
  \<^verbatim>\<open>add\<close> appends.
\<close>

fun members :: "info list pyobj list \<Rightarrow> info list" where
  "members [] = []"
| "members (Finding (Info i) # objs) = i # members objs"
| "members (Finding (Vuln i) # objs) = i # members objs"
| "members (obj # objs) = members objs"

definition E0 :: "info list env" where
  "E0 =
     \<lparr>set_match = (\<lambda>x obj. map info_url (take 1 x) = map info_url (members [obj])),
      set_add = (\<lambda>x obj. x @ members [obj]),
      set_uniq_id = (\<lambda>x. concat (map info_uniq_id x)),
      set_url = (\<lambda>x. concat (map info_url (take 1 x))),
      set_token_name = (\<lambda>x. None),
      set_dc = (\<lambda>x. None),
      set_severity = (\<lambda>x. None),
      str_hash = (\<lambda>text. text),
      obj_hash = (\<lambda>obj. ''hash''),
      rand_alpha = (\<lambda>n len. replicate len CHR ''a'')\<rparr>"

definition ex_info :: "string \<Rightarrow> string \<Rightarrow> data_container option \<Rightarrow> info" where
  "ex_info uid token dc =
     \<lparr>info_uniq_id = uid, info_url = ''http://host/a'', info_token_name = Some token,
      info_dc = dc, info_severity = INFORMATION\<rparr>"

definition ex_row :: "string \<Rightarrow> 's pyobj \<Rightarrow> 's row" where
  "ex_row uid obj =
     \<lparr>col_location_a = ''plugin'', col_location_b = ''vulns'', col_uniq_id = uid,
      col_pickle = obj\<rparr>"

text \<open>A ready store with one observer and the given rows in its table.\<close>

definition ex_store :: "'s row list \<Rightarrow> 's kb" where
  "ex_store rows =
     \<lparr>initialized = True, observers = [(1, ''observer'')], observer_id = 1, urls = Some [],
      fuzzable_requests = Some [], db = Some DefaultPersistentDB,
      table_name = Some ''knowledge_base_x'', dbms = [(''knowledge_base_x'', rows)],
      seed = 1, notified = []\<rparr>"

text \<open>Findings and stores used in the concrete instances of the grouping theorems.\<close>

definition info_u1 :: info where
  "info_u1 = ex_info ''u1'' ''id'' None"

definition info_u2 :: info where
  "info_u2 = ex_info ''u2'' ''id'' None"


definition store_set :: "info list kb" where
  "store_set = ex_store [ex_row ''u1'' (Finding (InfoSet [info_u1]))]"



definition group_call :: "info list kb \<Rightarrow> (error + info list pyobj \<times> bool) \<times> info list kb" where
  "group_call s =
     append_uniq_group E0 (Str ''plugin'') ''vulns'' (Finding (Info info_u2))
       (InfoSetSubclass members) s"

text \<open>
  A store on which \<^verbatim>\<open>raw_write\<close> has put a raw value at the address, and the same store
  after an InfoSet has been appended at that address.
\<close>

definition store_raw :: "info list kb" where
  "store_raw = snd (raw_write E0 (Str ''plugin'') ''vulns'' (Raw (Scalar ''1'')) (ex_store []))"

definition store_raw_and_set :: "info list kb" where
  "store_raw_and_set =
     snd (append_kb E0 (Str ''plugin'') ''vulns'' (Finding (InfoSet [info_u1])) False store_raw)"

section \<open>Basic facts about a ready store\<close>

lemma map_of_put_key: "map_of (put_key n v ts) m = (if m = n then Some v else map_of ts m)"
  by (induction ts) auto

lemma put_key_same: "map_of ts n = Some v \<Longrightarrow> put_key n v ts = ts"
  by (induction ts) (auto split: if_splits)

lemma ready_initialized: "ready s \<Longrightarrow> initialized s"
  by (simp add: ready_def)

lemma requires_setup_ready: "ready s \<Longrightarrow> requires_setup E m s = m s"
  by (simp add: requires_setup_def ready_def)

lemma db_select_ready: "ready s \<Longrightarrow> db_select c s = Inr (filter c (table s))"
  by (auto simp: ready_def db_select_def table_def split: option.splits)

lemma db_execute_ready:
  "ready s \<Longrightarrow> db_execute st s = (Inr (snd (st (table s))), write_table (fst (st (table s))) s)"
  by (auto simp: ready_def db_execute_def table_def write_table_def split: option.splits)

lemma ready_write_table: "ready s \<Longrightarrow> ready (write_table rows s)"
  by (auto simp: ready_def write_table_def map_of_put_key split: option.splits)

lemma table_write_table: "ready s \<Longrightarrow> table (write_table rows s) = rows"
  by (auto simp: ready_def write_table_def table_def map_of_put_key split: option.splits)

lemma write_table_same: "ready s \<Longrightarrow> write_table (table s) s = s"
  by (auto simp: ready_def write_table_def table_def put_key_same split: option.splits)

lemma ready_notify: "ready (notify_observers ev s) = ready s"
  by (simp add: ready_def notify_observers_def split: option.splits)

lemma table_notify: "table (notify_observers ev s) = table s"
  by (simp add: table_def notify_observers_def split: option.splits)

lemma get_loop_unchecked: "get_loop False rows acc = Inr (acc @ map col_pickle rows)"
  by (induction rows arbitrary: acc) (auto simp: Let_def)

lemma get_loop_checked:
  "get_loop True rows acc =
     (if list_all (\<lambda>r. is_finding (col_pickle r)) rows then Inr (acc @ map col_pickle rows)
      else Inl TypeError)"
  by (induction rows arbitrary: acc) (auto simp: Let_def is_finding_def)

lemma finding_instance [simp]:
  "isinstance (Finding f) InfoK \<or> isinstance (Finding f) InfoSetK \<or> isinstance (Finding f) ShellK"
  by (cases f) simp_all

lemma finding_instance' [simp]:
  "isinstance (Finding f) InfoK \<or> isinstance (Finding f) ShellK \<or> isinstance (Finding f) InfoSetK"
  by (cases f) simp_all

lemma is_finding_Finding [simp]: "is_finding (Finding f)"
  by (simp add: is_finding_def)

lemma is_finding_Raw [simp]: "\<not> is_finding (Raw r)"
  by (simp add: is_finding_def)

lemma map_if_none: "filter P xs = [] \<Longrightarrow> map (\<lambda>r. if P r then f r else r) xs = xs"
  by (induction xs) (auto split: if_splits)

lemma update_ready:
  assumes "ready s"
  shows "update E (Finding old) (Finding new) s =
     (if filter (\<lambda>r. col_uniq_id r = get_uniq_id E old) (table s) = []
      then (Inl DBException, s)
      else (Inr (),
            notify_observers (UPDATE (Finding old) (Finding new))
              (write_table
                 (map (\<lambda>r. if col_uniq_id r = get_uniq_id E old
                           then r\<lparr>col_pickle := Finding new, col_uniq_id := get_uniq_id E new\<rparr>
                           else r) (table s)) s)))"
proof (cases "filter (\<lambda>r. col_uniq_id r = get_uniq_id E old) (table s) = []")
  case True
  then show ?thesis
    using assms
    by (simp add: update_def requires_setup_ready db_execute_ready sql_update_def
        map_if_none write_table_same)
next
  case False
  then show ?thesis
    using assms
    by (simp add: update_def requires_setup_ready db_execute_ready sql_update_def)
qed

lemma update_not_finding:
  "\<not> is_finding old \<or> \<not> is_finding new \<Longrightarrow> ready s \<Longrightarrow> update E old new s = (Inl TypeError, s)"
  by (auto simp: update_def requires_setup_ready is_finding_def)

lemma ready_ex_store [simp]: "ready (ex_store rows)"
  by (simp add: ready_def ex_store_def)

lemma table_ex_store [simp]: "table (ex_store rows) = rows"
  by (simp add: table_def ex_store_def)

lemma notified_write_table [simp]: "notified (write_table rows s) = notified s"
  by (simp add: write_table_def split: option.splits)

lemma observers_write_table [simp]: "observers (write_table rows s) = observers s"
  by (simp add: write_table_def split: option.splits)

lemma urls_write_table [simp]: "urls (write_table rows s) = urls s"
  by (simp add: write_table_def split: option.splits)

lemma notified_notify:
  "notified (notify_observers ev s)
     = notified s @ map (\<lambda>(oid, observer). (observer, ev)) (observers s)"
  by (simp add: notify_observers_def)

lemma observers_notify [simp]: "observers (notify_observers ev s) = observers s"
  by (simp add: notify_observers_def)

lemma urls_notify [simp]: "urls (notify_observers ev s) = urls s"
  by (simp add: notify_observers_def)

lemma clear_ready:
  "ready s \<Longrightarrow>
   clear E location_a location_b s =
     (Inr (), write_table
        (filter (\<lambda>r. \<not> (col_location_a r = get_real_name location_a \<and> col_location_b r = location_b))
           (table s)) s)"
  by (simp add: clear_def requires_setup_ready db_execute_ready sql_delete_def)

lemma append_kb_ready:
  "ready s \<Longrightarrow> ignore_type \<or> is_finding val \<Longrightarrow>
   append_kb E location_a location_b val ignore_type s =
     (Inr (), notify_observers (APPEND (get_real_name location_a) location_b val ignore_type)
        (write_table
           (table s @ [\<lparr>col_location_a = get_real_name location_a, col_location_b = location_b,
                         col_uniq_id = kb_get_uniq_id E val, col_pickle = val\<rparr>]) s))"
  by (cases val) (auto simp: append_kb_def requires_setup_ready db_execute_ready sql_insert_def is_finding_def Let_def)

lemma append_kb_rejects:
  "ready s \<Longrightarrow> \<not> is_finding val \<Longrightarrow> append_kb E location_a location_b val False s = (Inl TypeError, s)"
  by (cases val) (auto simp: append_kb_def requires_setup_ready is_finding_def)

lemma get_ready:
  "ready s \<Longrightarrow>
   get E location_a location_b check_types s =
     (get_loop check_types (rows_under (get_real_name location_a) location_b s) [], s)"
  by (cases location_b) (simp_all add: get_def requires_setup_ready db_select_ready rows_under_def)

lemma put_key_put_key: "put_key n v (put_key n w ts) = put_key n v ts"
  by (induction ts) auto

lemma write_table_write_table: "write_table rows (write_table rows' s) = write_table rows s"
  by (simp add: write_table_def put_key_put_key split: option.splits)

lemma write_table_notify:
  "write_table rows (notify_observers ev s) = notify_observers ev (write_table rows s)"
  by (simp add: write_table_def notify_observers_def split: option.splits)


lemma raw_write_ready:
  assumes "ready s" and "\<not> isinstance val InfoK"
  shows "raw_write E location_a location_b val s =
     (Inr (), notify_observers (APPEND (get_real_name location_a) location_b val True)
        (write_table
           (filter (\<lambda>r. \<not> (col_location_a r = get_real_name location_a \<and> col_location_b r = location_b))
              (table s)
            @ [\<lparr>col_location_a = get_real_name location_a, col_location_b = location_b,
                 col_uniq_id = kb_get_uniq_id E val, col_pickle = val\<rparr>]) s))"
  using assms
  by (simp add: raw_write_def requires_setup_ready clear_ready append_kb_ready ready_write_table
      table_write_table write_table_write_table Let_def)

lemma raw_write_rejects_info:
  "ready s \<Longrightarrow> isinstance val InfoK \<Longrightarrow> raw_write E location_a location_b val s = (Inl TypeError, s)"
  by (simp add: raw_write_def requires_setup_ready)


lemma vulns_loop_filter:
  "vulns_loop E rows acc =
     acc @ filter (\<lambda>obj. get_severity E obj \<in> {Some LOW, Some MEDIUM, Some HIGH})
             (map col_pickle rows)"
  by (induction rows arbitrary: acc) (auto simp: Let_def split: option.splits)

lemma infos_loop_filter:
  "infos_loop E rows acc =
     acc @ filter (\<lambda>obj. get_severity E obj = Some INFORMATION) (map col_pickle rows)"
  by (induction rows arbitrary: acc) (auto simp: Let_def split: option.splits)

lemma get_all_vulns_ready:
  "ready s \<Longrightarrow>
   get_all_vulns E s =
     (Inr (filter (\<lambda>obj. get_severity E obj \<in> {Some LOW, Some MEDIUM, Some HIGH}) (stored s)), s)"
  by (simp add: get_all_vulns_def requires_setup_ready db_select_ready vulns_loop_filter stored_def)

lemma get_all_infos_ready:
  "ready s \<Longrightarrow>
   get_all_infos E s =
     (Inr (filter (\<lambda>obj. get_severity E obj = Some INFORMATION) (stored s)), s)"
  by (simp add: get_all_infos_def requires_setup_ready db_select_ready infos_loop_filter stored_def)

lemma add_url_ready:
  "ready s \<Longrightarrow>
   add_url E (URL u) s =
     (Inr (u \<notin> set (known_urls s)),
      (notify_observers (ADD_URL u) s)
        \<lparr>urls := Some (if u \<in> set (known_urls s) then known_urls s else known_urls s @ [u])\<rparr>)"
  by (auto simp: add_url_def requires_setup_ready ready_def known_urls_def diskset_add_def Let_def)

lemma ready_urls_update: "ready s \<Longrightarrow> ready (s\<lparr>urls := Some known\<rparr>)"
  by (simp add: ready_def split: option.splits)

lemma known_urls_ex_store [simp]: "known_urls (ex_store rows) = []"
  by (simp add: known_urls_def ex_store_def)

lemma observers_ex_store [simp]: "observers (ex_store rows) = [(1, ''observer'')]"
  by (simp add: ex_store_def)

lemma notified_ex_store [simp]: "notified (ex_store rows) = []"
  by (simp add: ex_store_def)

lemma rows_under_Some: "rows_under la (Some lb) s = rows_at la lb s"
  by (simp add: rows_under_def rows_at_def)

lemma filter_var_ready:
  "ready s \<Longrightarrow>
   filter_var E location_a location_b info_inst s =
     (case get_loop True (rows_at (get_real_name location_a) location_b s) [] of
        Inl e \<Rightarrow> Inl e
      | Inr saved \<Rightarrow> filter_var_loop E saved info_inst, s)"
  by (simp add: filter_var_def get_ready rows_under_Some split: sum.splits)

lemma filter_url_ready:
  "ready s \<Longrightarrow>
   filter_url E location_a location_b info_inst s =
     (case get_loop True (rows_at (get_real_name location_a) location_b s) [] of
        Inl e \<Rightarrow> Inl e
      | Inr saved \<Rightarrow> filter_url_loop E saved info_inst, s)"
  by (simp add: filter_url_def get_ready rows_under_Some split: sum.splits)

lemma info_is_finding: "isinstance obj InfoK \<Longrightarrow> is_finding obj"
  by (simp add: is_finding_def)

lemma append_uniq_var_ready:
  assumes "ready s" and "isinstance info_inst InfoK"
  shows "append_uniq E location_a location_b info_inst ''VAR'' s =
     (case fst (filter_var E location_a location_b info_inst s) of
        Inl e \<Rightarrow> (Inl e, s)
      | Inr True \<Rightarrow>
          (Inr True,
           notify_observers (APPEND (get_real_name location_a) location_b info_inst False)
             (write_table
                (table s @ [\<lparr>col_location_a = get_real_name location_a, col_location_b = location_b,
                              col_uniq_id = kb_get_uniq_id E info_inst, col_pickle = info_inst\<rparr>]) s))
      | Inr False \<Rightarrow> (Inr False, s))"
  using assms
  by (simp add: append_uniq_def FILTERS_def filter_var_ready append_kb_ready info_is_finding
      split: sum.splits bool.splits)

lemma get_loop_checked_snoc:
  "get_loop True rows [] = Inr saved \<Longrightarrow> is_finding (col_pickle t) \<Longrightarrow>
   get_loop True (rows @ [t]) [] = Inr (saved @ [col_pickle t])"
  by (auto simp: get_loop_checked split: if_splits simp del: get_loop.simps)

lemma rows_at_snoc:
  "rows_at la lb (notify_observers ev (write_table (table s @ [t]) s)) =
     (if ready s then rows_at la lb s @ (if col_location_a t = la \<and> col_location_b t = lb then [t] else [])
      else rows_at la lb (notify_observers ev (write_table (table s @ [t]) s)))"
  by (simp add: rows_at_def table_notify table_write_table)


lemma group_loop_find:
  "group_loop E location_a location_b info_inst ctor objs s =
     (case find (matching_set E info_inst) objs of
        None \<Rightarrow> group_loop E location_a location_b info_inst ctor [] s
      | Some obj \<Rightarrow> group_loop E location_a location_b info_inst ctor [obj] s)"
proof (induction objs)
  case Nil
  show ?case by simp
next
  case (Cons obj objs)
  show ?case
  proof (cases obj)
    case (Raw r)
    with Cons show ?thesis by (simp add: matching_set_def)
  next
    case (Finding f)
    with Cons show ?thesis
      by (cases f) (simp_all add: matching_set_def)
  qed
qed

lemma find_matching_set:
  "find (matching_set E info_inst) objs = Some obj \<Longrightarrow>
   \<exists>x. obj = Finding (InfoSet x) \<and> set_match E x info_inst \<and> obj \<in> set objs"
proof (induction objs)
  case Nil
  then show ?case by simp
next
  case (Cons o1 objs)
  show ?case
  proof (cases "matching_set E info_inst o1")
    case True
    with Cons.prems have "obj = o1" by simp
    with True show ?thesis
      by (auto simp: matching_set_def split: pyobj.splits finding.splits)
  next
    case False
    with Cons show ?thesis by auto
  qed
qed

lemma append_uniq_group_ready:
  assumes "ready s" and "isinstance info_inst InfoK"
    and "list_all (\<lambda>r. is_finding (col_pickle r)) (rows_at (get_real_name location_a) location_b s)"
  shows "append_uniq_group E location_a location_b info_inst (InfoSetSubclass ctor) s =
         group_loop E location_a location_b info_inst ctor
           (objs_at (get_real_name location_a) location_b s) s"
  using assms
  by (simp add: append_uniq_group_def get_ready rows_under_Some get_loop_checked objs_at_def
      del: get_loop.simps)

lemma identified_row:
  "identified E s \<Longrightarrow> r \<in> set (table s) \<Longrightarrow> col_pickle r = Finding (InfoSet x) \<Longrightarrow>
   col_uniq_id r = set_uniq_id E x"
  by (auto simp: identified_def list_all_iff)

lemma stored_set_has_row:
  assumes "identified E s" and "Finding (InfoSet x) \<in> set (objs_at la lb s)"
  shows "filter (\<lambda>r. col_uniq_id r = set_uniq_id E x) (table s) \<noteq> []"
proof -
  from assms(2) obtain r where r: "r \<in> set (table s)" "col_pickle r = Finding (InfoSet x)"
    by (auto simp: objs_at_def rows_at_def)
  with assms(1) have "col_uniq_id r = set_uniq_id E x" by (rule identified_row)
  with r(1) show ?thesis by (auto simp: filter_empty_conv)
qed

lemma group_loop_create:
  assumes "ready s"
  shows "group_loop E location_a location_b info_inst ctor [] s =
     (Inr (Finding (InfoSet (ctor [info_inst])), True),
      notify_observers
        (APPEND (get_real_name location_a) location_b (Finding (InfoSet (ctor [info_inst]))) False)
        (write_table
           (table s @ [\<lparr>col_location_a = get_real_name location_a, col_location_b = location_b,
                         col_uniq_id = set_uniq_id E (ctor [info_inst]),
                         col_pickle = Finding (InfoSet (ctor [info_inst]))\<rparr>]) s))"
  using assms by (simp add: append_kb_ready Let_def)

lemma group_loop_merge:
  assumes "ready s" and "set_match E x info_inst"
    and "filter (\<lambda>r. col_uniq_id r = set_uniq_id E x) (table s) \<noteq> []"
  shows "group_loop E location_a location_b info_inst ctor [Finding (InfoSet x)] s =
     (Inr (Finding (InfoSet (set_add E x info_inst)), False),
      notify_observers
        (UPDATE (Finding (InfoSet x)) (Finding (InfoSet (set_add E x info_inst))))
        (write_table
           (map (\<lambda>r. if col_uniq_id r = set_uniq_id E x
                     then r\<lparr>col_pickle := Finding (InfoSet (set_add E x info_inst)),
                            col_uniq_id := set_uniq_id E (set_add E x info_inst)\<rparr>
                     else r) (table s)) s))"
  using assms by (simp add: update_ready Let_def cong: if_cong)

lemma append_uniq_group_cases:
  assumes "ready s" and "identified E s" and "isinstance info_inst InfoK"
    and "list_all (\<lambda>r. is_finding (col_pickle r)) (rows_at (get_real_name location_a) location_b s)"
  shows "(\<forall>x. find (matching_set E info_inst) (objs_at (get_real_name location_a) location_b s)
              = Some (Finding (InfoSet x)) \<longrightarrow>
            append_uniq_group E location_a location_b info_inst (InfoSetSubclass ctor) s =
              (Inr (Finding (InfoSet (set_add E x info_inst)), False),
               notify_observers
                 (UPDATE (Finding (InfoSet x)) (Finding (InfoSet (set_add E x info_inst))))
                 (write_table
                    (map (\<lambda>r. if col_uniq_id r = set_uniq_id E x
                              then r\<lparr>col_pickle := Finding (InfoSet (set_add E x info_inst)),
                                     col_uniq_id := set_uniq_id E (set_add E x info_inst)\<rparr>
                              else r) (table s)) s)))
       \<and> (find (matching_set E info_inst) (objs_at (get_real_name location_a) location_b s) = None \<longrightarrow>
            append_uniq_group E location_a location_b info_inst (InfoSetSubclass ctor) s =
              (Inr (Finding (InfoSet (ctor [info_inst])), True),
               notify_observers
                 (APPEND (get_real_name location_a) location_b
                    (Finding (InfoSet (ctor [info_inst]))) False)
                 (write_table
                    (table s @ [\<lparr>col_location_a = get_real_name location_a,
                                  col_location_b = location_b,
                                  col_uniq_id = set_uniq_id E (ctor [info_inst]),
                                  col_pickle = Finding (InfoSet (ctor [info_inst]))\<rparr>]) s)))
       \<and> ((find (matching_set E info_inst) (objs_at (get_real_name location_a) location_b s) = None)
            \<longleftrightarrow> \<not> (\<exists>x. Finding (InfoSet x) \<in> set (objs_at (get_real_name location_a) location_b s)
                        \<and> set_match E x info_inst))"
proof -
  let ?objs = "objs_at (get_real_name location_a) location_b s"
  have call: "append_uniq_group E location_a location_b info_inst (InfoSetSubclass ctor) s =
              (case find (matching_set E info_inst) ?objs of
                 None \<Rightarrow> group_loop E location_a location_b info_inst ctor [] s
               | Some obj \<Rightarrow> group_loop E location_a location_b info_inst ctor [obj] s)"
    using append_uniq_group_ready [OF assms(1,3,4)] group_loop_find by metis
  have merge: "append_uniq_group E location_a location_b info_inst (InfoSetSubclass ctor) s =
              (Inr (Finding (InfoSet (set_add E x info_inst)), False),
               notify_observers
                 (UPDATE (Finding (InfoSet x)) (Finding (InfoSet (set_add E x info_inst))))
                 (write_table
                    (map (\<lambda>r. if col_uniq_id r = set_uniq_id E x
                              then r\<lparr>col_pickle := Finding (InfoSet (set_add E x info_inst)),
                                     col_uniq_id := set_uniq_id E (set_add E x info_inst)\<rparr>
                              else r) (table s)) s))"
    if found: "find (matching_set E info_inst) ?objs = Some (Finding (InfoSet x))" for x
  proof -
    from find_matching_set [OF found]
    have m: "set_match E x info_inst" and mem: "Finding (InfoSet x) \<in> set ?objs" by auto
    from stored_set_has_row [OF assms(2) mem]
    have "filter (\<lambda>r. col_uniq_id r = set_uniq_id E x) (table s) \<noteq> []" .
    from group_loop_merge [OF assms(1) m this] found call show ?thesis by simp
  qed
  have create: "append_uniq_group E location_a location_b info_inst (InfoSetSubclass ctor) s =
              (Inr (Finding (InfoSet (ctor [info_inst])), True),
               notify_observers
                 (APPEND (get_real_name location_a) location_b
                    (Finding (InfoSet (ctor [info_inst]))) False)
                 (write_table
                    (table s @ [\<lparr>col_location_a = get_real_name location_a,
                                  col_location_b = location_b,
                                  col_uniq_id = set_uniq_id E (ctor [info_inst]),
                                  col_pickle = Finding (InfoSet (ctor [info_inst]))\<rparr>]) s))"
    if "find (matching_set E info_inst) ?objs = None"
    using that call group_loop_create [OF assms(1)] by simp
  have none: "(find (matching_set E info_inst) ?objs = None)
            \<longleftrightarrow> \<not> (\<exists>x. Finding (InfoSet x) \<in> set ?objs \<and> set_match E x info_inst)"
    by (auto simp: find_None_iff matching_set_def split: pyobj.splits finding.splits)
  from merge create none show ?thesis by blast
qed

section \<open>Facts about initialisation\<close>

lemma setup_kb_initialized [simp]: "initialized (setup_kb E s)"
  by (simp add: setup_kb_def Let_def)

lemma setup_kb_idem: "initialized s \<Longrightarrow> setup_kb E s = s"
  by (simp add: setup_kb_def)

lemma requires_setup_lazy: "requires_setup E m s = requires_setup E m (setup_kb E s)"
  by (simp add: requires_setup_def setup_kb_idem)

lemma requires_setup_initialized: "initialized s \<Longrightarrow> requires_setup E m s = m s"
  by (simp add: requires_setup_def)

lemma db_execute_initialized: "db_execute stmt s = (r, s') \<Longrightarrow> initialized s' = initialized s"
  by (auto simp: db_execute_def split: option.splits)

lemma initialized_notify [simp]: "initialized (notify_observers ev s) = initialized s"
  by (simp add: notify_observers_def)

lemma clear_initialized: "initialized s \<Longrightarrow> clear E a b s = (r, s') \<Longrightarrow> initialized s'"
  by (auto simp: clear_def requires_setup_initialized Let_def split: prod.splits sum.splits
      dest: db_execute_initialized)

lemma append_kb_initialized:
  "initialized s \<Longrightarrow> append_kb E a b v ig s = (r, s') \<Longrightarrow> initialized s'"
  by (auto simp: append_kb_def requires_setup_initialized Let_def
      split: prod.splits sum.splits if_splits dest: db_execute_initialized)

lemma get_state: "initialized s \<Longrightarrow> snd (get E a b ct s) = s"
  by (simp add: get_def requires_setup_initialized Let_def split: sum.splits)

lemma update_initialized:
  "initialized s \<Longrightarrow> update E old new s = (r, s') \<Longrightarrow> initialized s'"
  by (auto simp: update_def requires_setup_initialized Let_def
      split: prod.splits sum.splits pyobj.splits if_splits dest: db_execute_initialized)

lemma lazy_decorated:
  "clear E a b s = clear E a b (setup_kb E s)"
  "raw_write E a b v s = raw_write E a b v (setup_kb E s)"
  "raw_read E a ob s = raw_read E a ob (setup_kb E s)"
  "get_one E a ob s = get_one E a ob (setup_kb E s)"
  "append_kb E a b v ig s = append_kb E a b v ig (setup_kb E s)"
  "get E a ob ct s = get E a ob ct (setup_kb E s)"
  "get_by_uniq_id E uid s = get_by_uniq_id E uid (setup_kb E s)"
  "update E old new s = update E old new (setup_kb E s)"
  "get_all_entries_of_class E ks s = get_all_entries_of_class E ks (setup_kb E s)"
  "get_all_vulns E s = get_all_vulns E (setup_kb E s)"
  "get_all_infos E s = get_all_infos E (setup_kb E s)"
  "dump E s = dump E (setup_kb E s)"
  "cleanup E s = cleanup E (setup_kb E s)"
  "remove_kb E s = remove_kb E (setup_kb E s)"
  "get_all_known_urls E s = get_all_known_urls E (setup_kb E s)"
  "add_url E url s = add_url E url (setup_kb E s)"
  "get_all_known_fuzzable_requests E s = get_all_known_fuzzable_requests E (setup_kb E s)"
  "add_fuzzable_request E fr s = add_fuzzable_request E fr (setup_kb E s)"
  unfolding clear_def raw_write_def raw_read_def get_one_def append_kb_def get_def
    get_by_uniq_id_def update_def get_all_entries_of_class_def get_all_vulns_def
    get_all_infos_def dump_def cleanup_def remove_kb_def get_all_known_urls_def add_url_def
    get_all_known_fuzzable_requests_def add_fuzzable_request_def
  by (rule requires_setup_lazy)+

lemma lazy_basic:
  "filter_url E a b i s = filter_url E a b i (setup_kb E s)"
  "filter_var E a b i s = filter_var E a b i (setup_kb E s)"
  "get_all_findings E s = get_all_findings E (setup_kb E s)"
  "get_all_shells E core s = get_all_shells E core (setup_kb E s)"
  "isinstance i InfoK \<Longrightarrow> filter_by = ''URL'' \<or> filter_by = ''VAR'' \<Longrightarrow>
     append_uniq E a b i filter_by s = append_uniq E a b i filter_by (setup_kb E s)"
  "isinstance i InfoK \<Longrightarrow>
     append_uniq_group E a b i (InfoSetSubclass ctor) s
       = append_uniq_group E a b i (InfoSetSubclass ctor) (setup_kb E s)"
proof -
  note g = lazy_decorated(6) [of E a "Some b" True s]
  show fu: "filter_url E a b i s = filter_url E a b i (setup_kb E s)"
    unfolding filter_url_def by (subst g) (rule refl)
  show fv: "filter_var E a b i s = filter_var E a b i (setup_kb E s)"
    unfolding filter_var_def by (subst g) (rule refl)
  show "get_all_findings E s = get_all_findings E (setup_kb E s)"
    unfolding get_all_findings_def by (rule lazy_decorated)
  show "get_all_shells E core s = get_all_shells E core (setup_kb E s)"
    unfolding get_all_shells_def by (rule lazy_decorated)
  show "append_uniq E a b i filter_by s = append_uniq E a b i filter_by (setup_kb E s)"
    if "isinstance i InfoK" "filter_by = ''URL'' \<or> filter_by = ''VAR''"
    using that fu fv by (auto simp: append_uniq_def FILTERS_def)
  show "append_uniq_group E a b i (InfoSetSubclass ctor) s
       = append_uniq_group E a b i (InfoSetSubclass ctor) (setup_kb E s)"
    if "isinstance i InfoK"
    using that g by (simp add: append_uniq_group_def)
qed

lemma get_state_dest: "initialized s \<Longrightarrow> get E a b ct s = (r, s') \<Longrightarrow> s' = s"
  using get_state [of s E a b ct] by simp

lemma raw_write_initialized:
  "initialized s \<Longrightarrow> raw_write E a b v s = (r, s') \<Longrightarrow> initialized s'"
  by (auto simp: raw_write_def requires_setup_initialized Let_def
      split: prod.splits sum.splits if_splits dest: clear_initialized append_kb_initialized)

lemma read_only_state:
  assumes "initialized s"
  shows "snd (raw_read E a ob s) = s" "snd (get_one E a ob s) = s"
    "snd (get_by_uniq_id E uid s) = s" "snd (get_all_entries_of_class E ks s) = s"
    "snd (get_all_vulns E s) = s" "snd (get_all_infos E s) = s" "snd (dump E s) = s"
    "snd (get_all_known_urls E s) = s" "snd (get_all_known_fuzzable_requests E s) = s"
    "snd (filter_url E a b i s) = s" "snd (filter_var E a b i s) = s"
    "snd (get_all_findings E s) = s" "snd (get_all_shells E core s) = s"
  using assms
  by (auto dest: get_state_dest simp: raw_read_def get_one_def get_by_uniq_id_def get_all_entries_of_class_def
      get_all_vulns_def get_all_infos_def dump_def get_all_known_urls_def
      get_all_known_fuzzable_requests_def filter_url_def filter_var_def get_all_findings_def
      get_all_shells_def requires_setup_initialized Let_def
      split: prod.splits sum.splits option.splits list.splits)

lemma cleanup_initialized: "initialized s \<Longrightarrow> cleanup E s = (r, s') \<Longrightarrow> initialized s'"
  by (auto simp: cleanup_def requires_setup_initialized Let_def
      split: prod.splits sum.splits option.splits dest: db_execute_initialized)

lemma remove_kb_initialized: "initialized s \<Longrightarrow> remove_kb E s = (r, s') \<Longrightarrow> initialized s'"
  by (auto simp: remove_kb_def requires_setup_initialized Let_def
      split: prod.splits sum.splits option.splits)

lemma add_url_initialized: "initialized s \<Longrightarrow> add_url E url s = (r, s') \<Longrightarrow> initialized s'"
  by (auto simp: add_url_def requires_setup_initialized Let_def
      split: url_arg.splits option.splits)

lemma add_fuzzable_request_initialized:
  "initialized s \<Longrightarrow> add_fuzzable_request E fr s = (r, s') \<Longrightarrow> initialized s'"
  by (auto simp: add_fuzzable_request_def requires_setup_initialized Let_def
      split: fr_arg.splits option.splits prod.splits sum.splits dest: add_url_initialized)

lemma append_uniq_initialized:
  "initialized s \<Longrightarrow> append_uniq E a b i filter_by s = (r, s') \<Longrightarrow> initialized s'"
  using read_only_state(10,11) [of s E a b i]
  by (auto simp: append_uniq_def FILTERS_def
      split: if_splits prod.splits sum.splits bool.splits dest: append_kb_initialized)

lemma group_loop_initialized:
  "initialized s \<Longrightarrow> group_loop E a b i ctor objs s = (r, s') \<Longrightarrow> initialized s'"
  by (induction objs)
    (auto simp: Let_def split: if_splits prod.splits sum.splits bool.splits
      dest: append_kb_initialized update_initialized)

lemma append_uniq_group_initialized:
  "initialized s \<Longrightarrow> append_uniq_group E a b i group_klass s = (r, s') \<Longrightarrow> initialized s'"
  by (auto simp: append_uniq_group_def
      split: if_splits group_klass.splits prod.splits sum.splits
      dest: group_loop_initialized get_state_dest)

lemma state_after_initialized: "initialized s \<Longrightarrow> initialized (state_after E op s)"
proof (cases op)
  case Op_setup
  then show ?thesis by simp
qed (auto simp: read_only_state get_state add_observer_def get_observer_id_def
      intro: clear_initialized raw_write_initialized append_kb_initialized update_initialized
        cleanup_initialized remove_kb_initialized add_url_initialized
        add_fuzzable_request_initialized append_uniq_initialized append_uniq_group_initialized
        prod.collapse [symmetric])

section \<open>The VAR rule and the grouping call on every address\<close>

lemma filter_var_loop_same_var:
  "list_all is_finding objs \<Longrightarrow>
   filter_var_loop E objs (Finding c) = Inr (\<not> list_ex (same_var E c) objs)"
proof (induction objs)
  case Nil
  show ?case by simp
next
  case (Cons obj objs)
  then obtain sv where obj: "obj = Finding sv"
    by (cases obj) simp_all
  from Cons have IH: "filter_var_loop E objs (Finding c) = Inr (\<not> list_ex (same_var E c) objs)"
    by simp
  have head: "same_var E c (Finding sv) \<longleftrightarrow>
      get_token_name E sv = get_token_name E c \<and> get_url E sv = get_url E c
      \<and> map_option keys (get_dc E sv) = map_option keys (get_dc E c)"
    by (simp add: same_var_def)
  show ?case
    unfolding obj
    by (cases "get_dc E sv"; cases "get_dc E c") (auto simp: IH head)
qed

lemma same_var_cong:
  assumes "get_url E f1 = get_url E f2" and "get_token_name E f1 = get_token_name E f2"
    and "map_option keys (get_dc E f1) = map_option keys (get_dc E f2)"
  shows "same_var E f1 = same_var E f2"
  using assms by (auto simp: same_var_def fun_eq_iff split: pyobj.splits)

lemma same_var_self: "same_var E f (Finding f)"
  by (simp add: same_var_def)

lemma same_var_dc:
  "(get_dc E g = None) \<noteq> (get_dc E h = None) \<Longrightarrow> \<not> same_var E h (Finding g)"
  by (auto simp: same_var_def)

lemma append_uniq_var_total:
  assumes "ready s" and "isinstance (Finding f) InfoK"
  shows "append_uniq E location_a location_b (Finding f) ''VAR'' s =
     (if \<not> list_all (\<lambda>r. is_finding (col_pickle r)) (rows_at (get_real_name location_a) location_b s)
      then (Inl TypeError, s)
      else if list_ex (same_var E f) (objs_at (get_real_name location_a) location_b s)
      then (Inr False, s)
      else (Inr True,
            notify_observers (APPEND (get_real_name location_a) location_b (Finding f) False)
              (write_table
                 (table s @ [\<lparr>col_location_a = get_real_name location_a, col_location_b = location_b,
                               col_uniq_id = kb_get_uniq_id E (Finding f), col_pickle = Finding f\<rparr>])
                 s)))"
proof (cases "list_all (\<lambda>r. is_finding (col_pickle r)) (rows_at (get_real_name location_a) location_b s)")
  case False
  then show ?thesis
    using assms by (simp add: append_uniq_var_ready filter_var_ready get_loop_checked del: get_loop.simps)
next
  case True
  then have "list_all is_finding (objs_at (get_real_name location_a) location_b s)"
    by (simp add: objs_at_def list_all_iff)
  from filter_var_loop_same_var [OF this, of E f] True show ?thesis
    using assms
    by (simp add: append_uniq_var_ready filter_var_ready get_loop_checked objs_at_def
        del: get_loop.simps)
qed

lemma append_uniq_group_raises:
  assumes "ready s"
    and "\<not> list_all (\<lambda>r. is_finding (col_pickle r)) (rows_at (get_real_name location_a) location_b s)"
  shows "append_uniq_group E location_a location_b info_inst group_klass s = (Inl TypeError, s)"
  using assms
  by (cases group_klass)
    (simp_all add: append_uniq_group_def get_ready rows_under_Some get_loop_checked
      del: get_loop.simps)





lemma ready_store_raw [simp]: "ready store_raw"
  by (simp add: store_raw_def raw_write_ready ready_notify ready_write_table)

lemma table_store_raw [simp]: "table store_raw = [ex_row ''hash'' (Raw (Scalar ''1''))]"
  by (simp add: store_raw_def raw_write_ready table_notify table_write_table E0_def ex_row_def)

lemma ready_store_raw_and_set [simp]: "ready store_raw_and_set"
  by (simp add: store_raw_and_set_def append_kb_ready ready_notify ready_write_table)

lemma table_store_raw_and_set [simp]:
  "table store_raw_and_set =
     [ex_row ''hash'' (Raw (Scalar ''1'')), ex_row ''u1'' (Finding (InfoSet [info_u1]))]"
  by (simp add: store_raw_and_set_def append_kb_ready table_notify table_write_table E0_def
      ex_row_def info_u1_def ex_info_def)

lemma identified_setup: "\<not> initialized s \<Longrightarrow> identified E (setup_kb E s)"
  by (simp add: identified_def setup_kb_def table_def create_table_def map_of_put_key Let_def)

lemma identified_append_kb:
  assumes "ready s" and "identified E s" and "ignore_type \<or> is_finding val"
  shows "identified E (snd (append_kb E location_a location_b val ignore_type s))"
proof -
  have "case val of Finding (InfoSet x) \<Rightarrow> kb_get_uniq_id E val = set_uniq_id E x | _ \<Rightarrow> True"
    by (simp split: pyobj.splits finding.splits)
  with assms show ?thesis
    by (auto simp: append_kb_ready identified_def table_notify table_write_table
        split: pyobj.splits finding.splits)
qed

lemma identified_update:
  assumes "ready s" and "identified E s"
  shows "identified E (snd (update E (Finding old) (Finding new) s))"
proof -
  have "list_all (\<lambda>r. case col_pickle r of
                        Finding (InfoSet x) \<Rightarrow> col_uniq_id r = set_uniq_id E x | _ \<Rightarrow> True)
          (map (\<lambda>r. if col_uniq_id r = uid
                     then r\<lparr>col_pickle := Finding new, col_uniq_id := get_uniq_id E new\<rparr>
                     else r) rows)"
    if "list_all (\<lambda>r. case col_pickle r of
                        Finding (InfoSet x) \<Rightarrow> col_uniq_id r = set_uniq_id E x | _ \<Rightarrow> True) rows"
    for rows :: "'a row list" and uid
    using that by (induction rows) (auto split: finding.splits)
  with assms show ?thesis
    by (simp add: update_ready identified_def table_notify table_write_table)
qed

section \<open>Update\<close>

text \<open>
  C1 (as the claim states it, refuted): the claim says that \<^verbatim>\<open>update(old, new)\<close> fails and
  changes nothing when the uniq_id of \<open>old\<close> resolves to more than one stored record.
  Here two rows carry the uniq_id \<open>x\<close>; the call succeeds and rewrites both.
\<close>

theorem update_two_matches_counterexample:
  "length (filter (\<lambda>r. col_uniq_id r = get_uniq_id E0 (Info (ex_info ''x'' ''id'' None)))
            (table (ex_store [ex_row ''x'' (Finding (Info (ex_info ''x'' ''id'' None))),
                              ex_row ''x'' (Finding (Info (ex_info ''x'' ''id'' None)))]))) = 2
   \<and> fst (update E0 (Finding (Info (ex_info ''x'' ''id'' None)))
                     (Finding (Info (ex_info ''y'' ''id'' None)))
            (ex_store [ex_row ''x'' (Finding (Info (ex_info ''x'' ''id'' None))),
                       ex_row ''x'' (Finding (Info (ex_info ''x'' ''id'' None)))])) = Inr ()
   \<and> table (snd (update E0 (Finding (Info (ex_info ''x'' ''id'' None)))
                            (Finding (Info (ex_info ''y'' ''id'' None)))
            (ex_store [ex_row ''x'' (Finding (Info (ex_info ''x'' ''id'' None))),
                       ex_row ''x'' (Finding (Info (ex_info ''x'' ''id'' None)))])))
     = [ex_row ''y'' (Finding (Info (ex_info ''y'' ''id'' None))),
        ex_row ''y'' (Finding (Info (ex_info ''y'' ''id'' None)))]"
  by (simp add: update_ready table_notify table_write_table ex_row_def ex_info_def)

text \<open>
  C1 (amended): for findings \<open>old\<close> and \<open>new\<close> and a ready store, \<^verbatim>\<open>update(old, new)\<close>
  succeeds exactly when at least one stored record has the uniq_id of \<open>old\<close>. When no
  record has it, the call fails with the store's DBException and leaves the whole state,
  and so every row, as it was. When one or more records have it, each of them gets the
  pickle and the uniq_id of \<open>new\<close>, every other row is untouched, and the observers are
  told.
\<close>

theorem update_needs_a_match:
  assumes "ready s"
  shows "(fst (update E (Finding old) (Finding new) s) = Inr ()
            \<longleftrightarrow> filter (\<lambda>r. col_uniq_id r = get_uniq_id E old) (table s) \<noteq> [])
     \<and> (filter (\<lambda>r. col_uniq_id r = get_uniq_id E old) (table s) = []
            \<longrightarrow> update E (Finding old) (Finding new) s = (Inl DBException, s))
     \<and> (filter (\<lambda>r. col_uniq_id r = get_uniq_id E old) (table s) \<noteq> []
            \<longrightarrow> table (snd (update E (Finding old) (Finding new) s))
                  = map (\<lambda>r. if col_uniq_id r = get_uniq_id E old
                             then r\<lparr>col_pickle := Finding new, col_uniq_id := get_uniq_id E new\<rparr>
                             else r) (table s)
                \<and> notified (snd (update E (Finding old) (Finding new) s))
                  = notified s @ map (\<lambda>(oid, observer). (observer, UPDATE (Finding old) (Finding new)))
                                     (observers s))"
  using assms
  by (simp add: update_ready table_notify table_write_table ready_write_table
      notified_notify)

theorem update_needs_a_match_witness:
  "ready (ex_store [ex_row ''x'' (Finding (Info (ex_info ''x'' ''id'' None)))])
   \<and> fst (update E0 (Finding (Info (ex_info ''x'' ''id'' None)))
                     (Finding (Info (ex_info ''y'' ''id'' None)))
            (ex_store [ex_row ''x'' (Finding (Info (ex_info ''x'' ''id'' None)))])) = Inr ()
   \<and> update E0 (Finding (Info (ex_info ''z'' ''id'' None)))
                (Finding (Info (ex_info ''y'' ''id'' None)))
        (ex_store [ex_row ''x'' (Finding (Info (ex_info ''x'' ''id'' None)))])
     = (Inl DBException, ex_store [ex_row ''x'' (Finding (Info (ex_info ''x'' ''id'' None)))])"
  using update_needs_a_match
          [of "ex_store [ex_row ''x'' (Finding (Info (ex_info ''x'' ''id'' None)))]" E0
              "Info (ex_info ''x'' ''id'' None)" "Info (ex_info ''y'' ''id'' None)"]
        update_needs_a_match
          [of "ex_store [ex_row ''x'' (Finding (Info (ex_info ''x'' ''id'' None)))]" E0
              "Info (ex_info ''z'' ''id'' None)" "Info (ex_info ''y'' ''id'' None)"]
  by (simp add: ex_row_def ex_info_def)

section \<open>Deduplication by URL, token and data container keys\<close>

text \<open>
  C2 (as the claim states it, refuted): the claim promises "added" for the first call at
  every address. At an address where \<^verbatim>\<open>raw_write\<close> has stored a raw value, the type
  check of \<^verbatim>\<open>get\<close> makes the first call raise a TypeError and nothing is stored; at an
  address that already holds a record with the same URL, token and keys, the first call
  returns "not added".
\<close>

theorem append_uniq_every_address_counterexample:
  "objs_at ''plugin'' ''vulns'' store_raw = [Raw (Scalar ''1'')]
   \<and> get_url E0 (Info info_u1) = get_url E0 (Info info_u2)
   \<and> get_token_name E0 (Info info_u1) = get_token_name E0 (Info info_u2)
   \<and> get_dc E0 (Info info_u1) = None \<and> get_dc E0 (Info info_u2) = None
   \<and> append_uniq E0 (Str ''plugin'') ''vulns'' (Finding (Info info_u1)) ''VAR'' store_raw
      = (Inl TypeError, store_raw)
   \<and> fst (append_uniq E0 (Str ''plugin'') ''vulns'' (Finding (Info info_u1)) ''VAR''
            (ex_store [ex_row ''u2'' (Finding (Info info_u2))])) = Inr False"
  by (simp add: append_uniq_var_total objs_at_def rows_at_def same_var_def info_u1_def
      info_u2_def ex_info_def ex_row_def)

text \<open>
  C2 (amended): on a ready store, for every address and every two Info (or Vuln) values
  with equal URL, equal token name, and data containers that are both absent or both
  present with the same key set, whatever the order. If a record stored at the address is
  not a finding, each call under VAR fails with a TypeError and stores nothing. If every
  record there is a finding and one of them matches the first value, each call returns
  "not added" and stores nothing. If every record there is a finding and none matches
  (so at an empty address), the first call returns "added", the second "not added", and
  the address holds exactly one record more, the first value. A candidate with a data
  container never matches a stored record without one, and vice versa.
\<close>

theorem append_uniq_var_dedup:
  assumes "ready s"
    and "isinstance (Finding f1) InfoK" and "isinstance (Finding f2) InfoK"
    and "get_url E f1 = get_url E f2"
    and "get_token_name E f1 = get_token_name E f2"
    and "map_option keys (get_dc E f1) = map_option keys (get_dc E f2)"
  shows "(\<not> list_all (\<lambda>r. is_finding (col_pickle r)) (rows_at (get_real_name location_a) location_b s)
            \<longrightarrow> append_uniq E location_a location_b (Finding f1) ''VAR'' s = (Inl TypeError, s)
              \<and> append_uniq E location_a location_b (Finding f2) ''VAR'' s = (Inl TypeError, s))
       \<and> (list_all (\<lambda>r. is_finding (col_pickle r)) (rows_at (get_real_name location_a) location_b s)
          \<and> list_ex (same_var E f1) (objs_at (get_real_name location_a) location_b s)
            \<longrightarrow> append_uniq E location_a location_b (Finding f1) ''VAR'' s = (Inr False, s)
              \<and> append_uniq E location_a location_b (Finding f2) ''VAR'' s = (Inr False, s))
       \<and> (list_all (\<lambda>r. is_finding (col_pickle r)) (rows_at (get_real_name location_a) location_b s)
          \<and> \<not> list_ex (same_var E f1) (objs_at (get_real_name location_a) location_b s)
            \<longrightarrow> fst (append_uniq E location_a location_b (Finding f1) ''VAR'' s) = Inr True
              \<and> fst (append_uniq E location_a location_b (Finding f2) ''VAR''
                        (snd (append_uniq E location_a location_b (Finding f1) ''VAR'' s))) = Inr False
              \<and> objs_at (get_real_name location_a) location_b
                   (snd (append_uniq E location_a location_b (Finding f2) ''VAR''
                          (snd (append_uniq E location_a location_b (Finding f1) ''VAR'' s))))
                  = objs_at (get_real_name location_a) location_b s @ [Finding f1])
       \<and> (objs_at (get_real_name location_a) location_b s = []
            \<longrightarrow> list_all (\<lambda>r. is_finding (col_pickle r)) (rows_at (get_real_name location_a) location_b s)
              \<and> \<not> list_ex (same_var E f1) (objs_at (get_real_name location_a) location_b s))
       \<and> ((get_dc E g = None) \<noteq> (get_dc E h = None)
            \<longrightarrow> \<not> same_var E h (Finding g) \<and> filter_var_loop E [Finding g] (Finding h) = Inr True)"
proof -
  let ?la = "get_real_name location_a"
  let ?rows = "rows_at ?la location_b s"
  let ?objs = "objs_at ?la location_b s"
  let ?t = "\<lparr>col_location_a = ?la, col_location_b = location_b,
             col_uniq_id = kb_get_uniq_id E (Finding f1), col_pickle = Finding f1\<rparr>"
  let ?s1 = "notify_observers (APPEND ?la location_b (Finding f1) False)
               (write_table (table s @ [?t]) s)"
  have eq: "same_var E f2 = same_var E f1"
    using same_var_cong [OF assms(4,5,6)] by simp
  have raw: "append_uniq E location_a location_b (Finding f1) ''VAR'' s = (Inl TypeError, s)
           \<and> append_uniq E location_a location_b (Finding f2) ''VAR'' s = (Inl TypeError, s)"
    if "\<not> list_all (\<lambda>r. is_finding (col_pickle r)) ?rows"
    using that assms(1,2,3) by (simp add: append_uniq_var_total)
  have dup: "append_uniq E location_a location_b (Finding f1) ''VAR'' s = (Inr False, s)
           \<and> append_uniq E location_a location_b (Finding f2) ''VAR'' s = (Inr False, s)"
    if "list_all (\<lambda>r. is_finding (col_pickle r)) ?rows" "list_ex (same_var E f1) ?objs"
    using that assms(1,2,3) eq by (simp add: append_uniq_var_total)
  have new: "fst (append_uniq E location_a location_b (Finding f1) ''VAR'' s) = Inr True
           \<and> fst (append_uniq E location_a location_b (Finding f2) ''VAR''
                    (snd (append_uniq E location_a location_b (Finding f1) ''VAR'' s))) = Inr False
           \<and> objs_at ?la location_b
                (snd (append_uniq E location_a location_b (Finding f2) ''VAR''
                       (snd (append_uniq E location_a location_b (Finding f1) ''VAR'' s))))
              = ?objs @ [Finding f1]"
    if all: "list_all (\<lambda>r. is_finding (col_pickle r)) ?rows"
      and none: "\<not> list_ex (same_var E f1) ?objs"
  proof -
    have first: "append_uniq E location_a location_b (Finding f1) ''VAR'' s = (Inr True, ?s1)"
      using all none assms(1,2) by (simp add: append_uniq_var_total)
    have r1: "ready ?s1"
      using assms(1) by (simp add: ready_notify ready_write_table)
    have rows1: "rows_at ?la location_b ?s1 = ?rows @ [?t]"
      using assms(1) by (simp add: rows_at_snoc)
    have all1: "list_all (\<lambda>r. is_finding (col_pickle r)) (rows_at ?la location_b ?s1)"
      unfolding rows1 using all by simp
    have ex1: "list_ex (same_var E f2) (objs_at ?la location_b ?s1)"
      unfolding eq by (simp add: objs_at_def rows1 same_var_self)
    have second: "append_uniq E location_a location_b (Finding f2) ''VAR'' ?s1 = (Inr False, ?s1)"
      using r1 assms(3) all1 ex1 by (simp add: append_uniq_var_total)
    show ?thesis
      using first second rows1 by (simp add: objs_at_def)
  qed
  have empty: "list_all (\<lambda>r. is_finding (col_pickle r)) ?rows \<and> \<not> list_ex (same_var E f1) ?objs"
    if "?objs = []"
    using that by (simp add: objs_at_def)
  have dc: "\<not> same_var E h (Finding g) \<and> filter_var_loop E [Finding g] (Finding h) = Inr True"
    if "(get_dc E g = None) \<noteq> (get_dc E h = None)"
    using that same_var_dc [of E g h] filter_var_loop_same_var [of "[Finding g]" E h]
    by simp
  from raw dup new empty dc show ?thesis by blast
qed

theorem append_uniq_var_dedup_witness:
  "ready (ex_store ([] :: info list row list))
   \<and> objs_at ''plugin'' ''vulns'' (ex_store ([] :: info list row list)) = []
   \<and> keys [(''a'', ''1''), (''b'', ''2'')] = keys [(''b'', ''4''), (''a'', ''3'')]
   \<and> fst (append_uniq E0 (Str ''plugin'') ''vulns''
            (Finding (Info (ex_info ''u1'' ''id'' (Some [(''a'', ''1''), (''b'', ''2'')])))) ''VAR''
            (ex_store [])) = Inr True
   \<and> fst (append_uniq E0 (Str ''plugin'') ''vulns''
            (Finding (Vuln (ex_info ''u2'' ''id'' (Some [(''b'', ''4''), (''a'', ''3'')])))) ''VAR''
            (snd (append_uniq E0 (Str ''plugin'') ''vulns''
                   (Finding (Info (ex_info ''u1'' ''id'' (Some [(''a'', ''1''), (''b'', ''2'')])))) ''VAR''
                   (ex_store [])))) = Inr False
   \<and> objs_at ''plugin'' ''vulns''
        (snd (append_uniq E0 (Str ''plugin'') ''vulns''
            (Finding (Vuln (ex_info ''u2'' ''id'' (Some [(''b'', ''4''), (''a'', ''3'')])))) ''VAR''
            (snd (append_uniq E0 (Str ''plugin'') ''vulns''
                   (Finding (Info (ex_info ''u1'' ''id'' (Some [(''a'', ''1''), (''b'', ''2'')])))) ''VAR''
                   (ex_store [])))))
      = [Finding (Info (ex_info ''u1'' ''id'' (Some [(''a'', ''1''), (''b'', ''2'')])))]
   \<and> append_uniq E0 (Str ''plugin'') ''vulns'' (Finding (Info info_u1)) ''VAR'' store_raw
      = (Inl TypeError, store_raw)
   \<and> filter_var_loop E0 [Finding (Info (ex_info ''u1'' ''id'' None))]
        (Finding (Info (ex_info ''u2'' ''id'' (Some [(''a'', ''1'')])))) = Inr True"
  using append_uniq_var_dedup
          [where s = "ex_store ([] :: info list row list)" and E = E0
             and location_a = "Str ''plugin''" and location_b = "''vulns''"
             and ?f1.0 = "Info (ex_info ''u1'' ''id'' (Some [(''a'', ''1''), (''b'', ''2'')]))"
             and ?f2.0 = "Vuln (ex_info ''u2'' ''id'' (Some [(''b'', ''4''), (''a'', ''3'')]))"
             and g = "Info (ex_info ''u1'' ''id'' None)"
             and h = "Info (ex_info ''u2'' ''id'' (Some [(''a'', ''1'')]))"]
        append_uniq_var_dedup
          [where s = store_raw and E = E0
             and location_a = "Str ''plugin''" and location_b = "''vulns''"
             and ?f1.0 = "Info info_u1" and ?f2.0 = "Info info_u2"
             and g = "Info info_u1" and h = "Info info_u1"]
  by (simp add: objs_at_def rows_at_def keys_def ex_info_def ex_row_def info_u1_def info_u2_def
      insert_commute)

section \<open>Grouping findings into an InfoSet\<close>

text \<open>
  C3 (as the claim states it, refuted): the claim speaks of every address. At an address
  that holds a raw value, written by \<^verbatim>\<open>raw_write\<close>, the type check of \<^verbatim>\<open>get\<close> makes
  \<^verbatim>\<open>append_uniq_group\<close> raise a TypeError: with a matching InfoSet stored beside the raw
  value it does not merge, and with the raw value alone it does not create.
\<close>

theorem append_uniq_group_raw_address_counterexample:
  "objs_at ''plugin'' ''vulns'' store_raw_and_set
     = [Raw (Scalar ''1''), Finding (InfoSet [info_u1])]
   \<and> set_match E0 [info_u1] (Finding (Info info_u2))
   \<and> group_call store_raw_and_set = (Inl TypeError, store_raw_and_set)
   \<and> objs_at ''plugin'' ''vulns'' store_raw = [Raw (Scalar ''1'')]
   \<and> group_call store_raw = (Inl TypeError, store_raw)"
  by (simp add: group_call_def append_uniq_group_raises objs_at_def rows_at_def ex_row_def
      E0_def info_u1_def info_u2_def ex_info_def)

text \<open>
  C3 (amended): on a ready store whose rows carry the identity of the InfoSet they hold (as
  \<^verbatim>\<open>append\<close> and \<^verbatim>\<open>update\<close> write them), for every address and Info (or Vuln) value:
  when a record stored at the address is not a finding, \<^verbatim>\<open>append_uniq_group\<close> fails with
  a TypeError and changes nothing. When every record there is a finding and a stored InfoSet
  matches, it takes the first such set, keeps it as it was for the notification, adds the
  value to it, rewrites the rows found under the set's prior uniq_id with the grown set and
  its new uniq_id, and returns the grown set with created = False. When every record there
  is a finding and no stored InfoSet matches, it builds a new set from the value alone with
  the given constructor, appends it as a new row at the address and returns it with
  created = True.
\<close>

theorem append_uniq_group_merges_or_creates:
  assumes "ready s" and "identified E s" and "isinstance info_inst InfoK"
  shows "(\<not> list_all (\<lambda>r. is_finding (col_pickle r)) (rows_at (get_real_name location_a) location_b s)
            \<longrightarrow> append_uniq_group E location_a location_b info_inst (InfoSetSubclass ctor) s
                  = (Inl TypeError, s))
       \<and> (list_all (\<lambda>r. is_finding (col_pickle r)) (rows_at (get_real_name location_a) location_b s)
            \<longrightarrow>
            (\<forall>x. find (matching_set E info_inst) (objs_at (get_real_name location_a) location_b s)
                   = Some (Finding (InfoSet x)) \<longrightarrow>
               append_uniq_group E location_a location_b info_inst (InfoSetSubclass ctor) s =
                 (Inr (Finding (InfoSet (set_add E x info_inst)), False),
                  notify_observers
                    (UPDATE (Finding (InfoSet x)) (Finding (InfoSet (set_add E x info_inst))))
                    (write_table
                       (map (\<lambda>r. if col_uniq_id r = set_uniq_id E x
                                 then r\<lparr>col_pickle := Finding (InfoSet (set_add E x info_inst)),
                                        col_uniq_id := set_uniq_id E (set_add E x info_inst)\<rparr>
                                 else r) (table s)) s)))
          \<and> (find (matching_set E info_inst) (objs_at (get_real_name location_a) location_b s)
                = None \<longrightarrow>
               append_uniq_group E location_a location_b info_inst (InfoSetSubclass ctor) s =
                 (Inr (Finding (InfoSet (ctor [info_inst])), True),
                  notify_observers
                    (APPEND (get_real_name location_a) location_b
                       (Finding (InfoSet (ctor [info_inst]))) False)
                    (write_table
                       (table s @ [\<lparr>col_location_a = get_real_name location_a,
                                     col_location_b = location_b,
                                     col_uniq_id = set_uniq_id E (ctor [info_inst]),
                                     col_pickle = Finding (InfoSet (ctor [info_inst]))\<rparr>]) s))))
       \<and> ((find (matching_set E info_inst) (objs_at (get_real_name location_a) location_b s) = None)
            \<longleftrightarrow> \<not> (\<exists>x. Finding (InfoSet x) \<in> set (objs_at (get_real_name location_a) location_b s)
                        \<and> set_match E x info_inst))"
proof (cases "list_all (\<lambda>r. is_finding (col_pickle r)) (rows_at (get_real_name location_a) location_b s)")
  case True
  from append_uniq_group_cases [OF assms(1,2,3) True, of ctor] True show ?thesis by blast
next
  case False
  have "(find (matching_set E info_inst) (objs_at (get_real_name location_a) location_b s) = None)
            \<longleftrightarrow> \<not> (\<exists>x. Finding (InfoSet x) \<in> set (objs_at (get_real_name location_a) location_b s)
                        \<and> set_match E x info_inst)"
    by (auto simp: find_None_iff matching_set_def split: pyobj.splits finding.splits)
  with False append_uniq_group_raises [OF assms(1) False, of E info_inst "InfoSetSubclass ctor"]
  show ?thesis by blast
qed

theorem append_uniq_group_merges_or_creates_witness:
  "ready store_set
   \<and> identified E0 store_set
   \<and> isinstance (Finding (Info info_u2) :: info list pyobj) InfoK
   \<and> list_all (\<lambda>r. is_finding (col_pickle r)) (rows_at ''plugin'' ''vulns'' store_set)
   \<and> fst (group_call store_set) = Inr (Finding (InfoSet [info_u1, info_u2]), False)
   \<and> table (snd (group_call store_set))
      = [ex_row ''u1u2'' (Finding (InfoSet [info_u1, info_u2]))]
   \<and> notified (snd (group_call store_set))
      = [(''observer'',
          UPDATE (Finding (InfoSet [info_u1])) (Finding (InfoSet [info_u1, info_u2])))]
   \<and> fst (group_call (ex_store [])) = Inr (Finding (InfoSet [info_u2]), True)
   \<and> table (snd (group_call (ex_store []))) = [ex_row ''u2'' (Finding (InfoSet [info_u2]))]
   \<and> identified E0 store_raw
   \<and> group_call store_raw = (Inl TypeError, store_raw)"
  using append_uniq_group_merges_or_creates
          [where s = store_set and E = E0 and info_inst = "Finding (Info info_u2)"
             and location_a = "Str ''plugin''" and location_b = "''vulns''" and ctor = members]
        append_uniq_group_merges_or_creates
          [where s = "ex_store []" and E = E0 and info_inst = "Finding (Info info_u2)"
             and location_a = "Str ''plugin''" and location_b = "''vulns''" and ctor = members]
        append_uniq_group_merges_or_creates
          [where s = store_raw and E = E0 and info_inst = "Finding (Info info_u2)"
             and location_a = "Str ''plugin''" and location_b = "''vulns''" and ctor = members]
  by (simp add: group_call_def store_set_def info_u1_def info_u2_def identified_def objs_at_def
      rows_at_def matching_set_def E0_def ex_row_def ex_info_def table_notify table_write_table
      notified_notify)

section \<open>What \<^verbatim>\<open>raw_write\<close> accepts\<close>

text \<open>
  C4 (the code at the failing inputs): \<^verbatim>\<open>raw_write\<close> tests \<^verbatim>\<open>isinstance(value, Info)\<close>
  only. An Info or a Vuln is rejected with a TypeError and the state is left as it was, but
  an InfoSet and a Shell, which \<^verbatim>\<open>append\<close>, \<^verbatim>\<open>get\<close> and \<^verbatim>\<open>update\<close> count among the
  findings, are accepted and stored as the one record of the address.
\<close>

theorem raw_write_accepts_infoset_and_shell:
  "fst (raw_write E0 (Str ''plugin'') ''vulns'' (Finding (InfoSet [ex_info ''u1'' ''id'' None]))
         (ex_store [])) = Inr ()
   \<and> objs_at ''plugin'' ''vulns''
        (snd (raw_write E0 (Str ''plugin'') ''vulns'' (Finding (InfoSet [ex_info ''u1'' ''id'' None]))
               (ex_store [])))
      = [Finding (InfoSet [ex_info ''u1'' ''id'' None])]
   \<and> fst (raw_write E0 (Str ''plugin'') ''vulns''
            (Finding (Shell \<lparr>shell_uniq_id = ''s1'', shell_url = ''http://host/a'',
                              shell_token_name = None, shell_dc = None\<rparr>))
            (ex_store [])) = Inr ()
   \<and> objs_at ''plugin'' ''vulns''
        (snd (raw_write E0 (Str ''plugin'') ''vulns''
               (Finding (Shell \<lparr>shell_uniq_id = ''s1'', shell_url = ''http://host/a'',
                                 shell_token_name = None, shell_dc = None\<rparr>))
               (ex_store [])))
      = [Finding (Shell \<lparr>shell_uniq_id = ''s1'', shell_url = ''http://host/a'',
                          shell_token_name = None, shell_dc = None\<rparr>)]
   \<and> raw_write E0 (Str ''plugin'') ''vulns'' (Finding (Info (ex_info ''u1'' ''id'' None))) (ex_store [])
      = (Inl TypeError, ex_store [])
   \<and> raw_write E0 (Str ''plugin'') ''vulns'' (Finding (Vuln (ex_info ''u1'' ''id'' None))) (ex_store [])
      = (Inl TypeError, ex_store [])"
  by (simp add: raw_write_ready raw_write_rejects_info table_notify table_write_table
      objs_at_def rows_at_def)

section \<open>The severity queries\<close>

text \<open>
  C5: on a ready store, over any table, \<^verbatim>\<open>get_all_vulns\<close> returns exactly the stored
  objects whose severity is LOW, MEDIUM or HIGH and \<^verbatim>\<open>get_all_infos\<close> exactly those whose
  severity is INFORMATION, both in table order; no object is in both results, and an
  object without a severity is in neither.
\<close>

theorem severity_partition:
  assumes "ready s"
  shows "get_all_vulns E s =
           (Inr (filter (\<lambda>obj. get_severity E obj \<in> {Some LOW, Some MEDIUM, Some HIGH}) (stored s)), s)
       \<and> get_all_infos E s =
           (Inr (filter (\<lambda>obj. get_severity E obj = Some INFORMATION) (stored s)), s)
       \<and> set (returned (get_all_vulns E s)) \<inter> set (returned (get_all_infos E s)) = {}
       \<and> (\<forall>obj. get_severity E obj = None \<longrightarrow>
              obj \<notin> set (returned (get_all_vulns E s)) \<and> obj \<notin> set (returned (get_all_infos E s)))"
  using assms
  by (auto simp: get_all_vulns_ready get_all_infos_ready returned_def)

theorem severity_partition_witness:
  "ready (ex_store
            [ex_row ''u1'' (Finding (Info (ex_info ''u1'' ''id'' None))),
             ex_row ''u2'' (Finding (Vuln ((ex_info ''u2'' ''id'' None)\<lparr>info_severity := HIGH\<rparr>))),
             ex_row ''h'' (Finding (Shell \<lparr>shell_uniq_id = ''s1'', shell_url = ''http://host/a'',
                                             shell_token_name = None, shell_dc = None\<rparr>)),
             ex_row ''u3'' (Finding (Vuln ((ex_info ''u3'' ''id'' None)\<lparr>info_severity := LOW\<rparr>))),
             ex_row ''h'' (Raw (Scalar ''1'') :: info list pyobj)])
   \<and> returned (get_all_vulns E0 (ex_store
            [ex_row ''u1'' (Finding (Info (ex_info ''u1'' ''id'' None))),
             ex_row ''u2'' (Finding (Vuln ((ex_info ''u2'' ''id'' None)\<lparr>info_severity := HIGH\<rparr>))),
             ex_row ''h'' (Finding (Shell \<lparr>shell_uniq_id = ''s1'', shell_url = ''http://host/a'',
                                             shell_token_name = None, shell_dc = None\<rparr>)),
             ex_row ''u3'' (Finding (Vuln ((ex_info ''u3'' ''id'' None)\<lparr>info_severity := LOW\<rparr>))),
             ex_row ''h'' (Raw (Scalar ''1''))]))
      = [Finding (Vuln ((ex_info ''u2'' ''id'' None)\<lparr>info_severity := HIGH\<rparr>)),
         Finding (Vuln ((ex_info ''u3'' ''id'' None)\<lparr>info_severity := LOW\<rparr>))]
   \<and> returned (get_all_infos E0 (ex_store
            [ex_row ''u1'' (Finding (Info (ex_info ''u1'' ''id'' None))),
             ex_row ''u2'' (Finding (Vuln ((ex_info ''u2'' ''id'' None)\<lparr>info_severity := HIGH\<rparr>))),
             ex_row ''h'' (Finding (Shell \<lparr>shell_uniq_id = ''s1'', shell_url = ''http://host/a'',
                                             shell_token_name = None, shell_dc = None\<rparr>)),
             ex_row ''u3'' (Finding (Vuln ((ex_info ''u3'' ''id'' None)\<lparr>info_severity := LOW\<rparr>))),
             ex_row ''h'' (Raw (Scalar ''1''))]))
      = [Finding (Info (ex_info ''u1'' ''id'' None))]"
  using severity_partition
          [where E = E0 and s = "ex_store
            [ex_row ''u1'' (Finding (Info (ex_info ''u1'' ''id'' None))),
             ex_row ''u2'' (Finding (Vuln ((ex_info ''u2'' ''id'' None)\<lparr>info_severity := HIGH\<rparr>))),
             ex_row ''h'' (Finding (Shell \<lparr>shell_uniq_id = ''s1'', shell_url = ''http://host/a'',
                                             shell_token_name = None, shell_dc = None\<rparr>)),
             ex_row ''u3'' (Finding (Vuln ((ex_info ''u3'' ''id'' None)\<lparr>info_severity := LOW\<rparr>))),
             ex_row ''h'' (Raw (Scalar ''1'') :: info list pyobj)]"]
  by (simp add: returned_def stored_def ex_row_def ex_info_def)

section \<open>Reading one value\<close>

text \<open>
  C6 (as the claim states it, refuted): the claim gives \<^verbatim>\<open>get_one\<close> the cardinality
  contract of \<^verbatim>\<open>raw_read\<close>. With exactly one record at the address, a raw value,
  \<^verbatim>\<open>raw_read\<close> returns it but \<^verbatim>\<open>get_one\<close> raises a TypeError; with two raw records
  \<^verbatim>\<open>get_one\<close> raises the TypeError of the type check, not the RuntimeError.
\<close>

theorem get_one_raw_record_counterexample:
  "length (rows_under ''plugin'' (Some ''vulns'')
             (ex_store [ex_row ''h'' (Raw (Scalar ''1'') :: info list pyobj)])) = 1
   \<and> fst (raw_read E0 (Str ''plugin'') (Some ''vulns'')
            (ex_store [ex_row ''h'' (Raw (Scalar ''1''))])) = Inr (Single (Raw (Scalar ''1'')))
   \<and> fst (get_one E0 (Str ''plugin'') (Some ''vulns'')
            (ex_store [ex_row ''h'' (Raw (Scalar ''1''))])) = Inl TypeError
   \<and> fst (get_one E0 (Str ''plugin'') (Some ''vulns'')
            (ex_store [ex_row ''h'' (Raw (Scalar ''1'')), ex_row ''h'' (Raw (Scalar ''2''))]))
      = Inl TypeError"
  by (simp add: raw_read_def get_one_def requires_setup_ready get_ready rows_under_def ex_row_def)

text \<open>
  C6 (amended): on a ready store, for every address (a location_b of \<open>None\<close> selects every
  record under location_a), \<^verbatim>\<open>raw_read\<close> returns the empty list when no record is
  selected, the stored value when exactly one is, and fails with a RuntimeError when more
  than one is. \<^verbatim>\<open>get_one\<close> does the same as long as every selected record is a finding;
  as soon as one of them is not, it fails with a TypeError instead, whatever their number.
  Neither call changes the store.
\<close>

theorem raw_read_get_one_cardinality:
  assumes "ready s"
  shows "(rows_under (get_real_name location_a) location_b s = [] \<longrightarrow>
            raw_read E location_a location_b s = (Inr Empty_list, s)
          \<and> get_one E location_a location_b s = (Inr Empty_list, s))
       \<and> (\<forall>r. rows_under (get_real_name location_a) location_b s = [r] \<longrightarrow>
            raw_read E location_a location_b s = (Inr (Single (col_pickle r)), s)
          \<and> get_one E location_a location_b s =
              (if is_finding (col_pickle r) then Inr (Single (col_pickle r)) else Inl TypeError, s))
       \<and> (length (rows_under (get_real_name location_a) location_b s) > 1 \<longrightarrow>
            raw_read E location_a location_b s = (Inl RuntimeError, s)
          \<and> get_one E location_a location_b s =
              (if list_all (\<lambda>r. is_finding (col_pickle r))
                    (rows_under (get_real_name location_a) location_b s)
               then Inl RuntimeError else Inl TypeError, s))"
  using assms
  by (auto simp: raw_read_def get_one_def requires_setup_ready get_ready get_loop_unchecked
      get_loop_checked simp del: get_loop.simps)

theorem raw_read_get_one_cardinality_witness:
  "ready (ex_store [ex_row ''u1'' (Finding (Info (ex_info ''u1'' ''id'' None)) :: info list pyobj)])
   \<and> rows_under ''plugin'' (Some ''other'')
        (ex_store [ex_row ''u1'' (Finding (Info (ex_info ''u1'' ''id'' None)) :: info list pyobj)]) = []
   \<and> raw_read E0 (Str ''plugin'') (Some ''other'')
        (ex_store [ex_row ''u1'' (Finding (Info (ex_info ''u1'' ''id'' None)))])
      = (Inr Empty_list, ex_store [ex_row ''u1'' (Finding (Info (ex_info ''u1'' ''id'' None)))])
   \<and> get_one E0 (Str ''plugin'') (Some ''vulns'')
        (ex_store [ex_row ''u1'' (Finding (Info (ex_info ''u1'' ''id'' None)))])
      = (Inr (Single (Finding (Info (ex_info ''u1'' ''id'' None)))),
         ex_store [ex_row ''u1'' (Finding (Info (ex_info ''u1'' ''id'' None)))])
   \<and> raw_read E0 (Str ''plugin'') None
        (ex_store [ex_row ''u1'' (Finding (Info (ex_info ''u1'' ''id'' None))),
                   ex_row ''u1'' (Finding (Info (ex_info ''u1'' ''id'' None)))])
      = (Inl RuntimeError,
         ex_store [ex_row ''u1'' (Finding (Info (ex_info ''u1'' ''id'' None))),
                   ex_row ''u1'' (Finding (Info (ex_info ''u1'' ''id'' None)))])"
  using raw_read_get_one_cardinality
          [where s = "ex_store [ex_row ''u1'' (Finding (Info (ex_info ''u1'' ''id'' None)) :: info list pyobj)]"
             and E = E0 and location_a = "Str ''plugin''" and location_b = "Some ''other''"]
        raw_read_get_one_cardinality
          [where s = "ex_store [ex_row ''u1'' (Finding (Info (ex_info ''u1'' ''id'' None)) :: info list pyobj)]"
             and E = E0 and location_a = "Str ''plugin''" and location_b = "Some ''vulns''"]
        raw_read_get_one_cardinality
          [where s = "ex_store [ex_row ''u1'' (Finding (Info (ex_info ''u1'' ''id'' None)) :: info list pyobj),
                                ex_row ''u1'' (Finding (Info (ex_info ''u1'' ''id'' None)))]"
             and E = E0 and location_a = "Str ''plugin''" and location_b = "None"]
  by (simp add: rows_under_def ex_row_def)

section \<open>Raw values replace, findings accumulate\<close>



section \<open>Lazy, one-time initialisation\<close>

text \<open>
  C8 (as the claim states it, refuted): the claim says that every public operation called
  on a store that is not initialised runs \<^verbatim>\<open>setup\<close> first. \<^verbatim>\<open>add_observer\<close> is public,
  carries no \<^verbatim>\<open>requires_setup\<close> decorator and calls no decorated method: on a new store
  it registers the observer and leaves the store uninitialised, which is not what the call
  leaves after \<^verbatim>\<open>setup\<close>.
\<close>

theorem add_observer_skips_setup_counterexample:
  "\<not> initialized (init_kb [] 0 :: info list kb)
   \<and> \<not> initialized (state_after E0 (Op_add_observer ''observer'') (init_kb [] 0))
   \<and> observers (state_after E0 (Op_add_observer ''observer'') (init_kb [] 0)) = [(1, ''observer'')]
   \<and> state_after E0 (Op_add_observer ''observer'') (init_kb [] 0)
       \<noteq> state_after E0 (Op_add_observer ''observer'') (setup_kb E0 (init_kb [] 0))"
proof -
  have "initialized (state_after E0 (Op_add_observer ''observer'') (setup_kb E0 (init_kb [] 0)))"
    by (simp add: add_observer_def get_observer_id_def)
  moreover have "\<not> initialized (state_after E0 (Op_add_observer ''observer'') (init_kb [] 0))"
    by (simp add: add_observer_def get_observer_id_def init_kb_def)
  ultimately have "state_after E0 (Op_add_observer ''observer'') (init_kb [] 0)
       \<noteq> state_after E0 (Op_add_observer ''observer'') (setup_kb E0 (init_kb [] 0))"
    by metis
  then show ?thesis
    by (simp add: add_observer_def get_observer_id_def init_kb_def)
qed

text \<open>
  C8 (amended): \<^verbatim>\<open>setup\<close> is idempotent: on a store on which it has run it changes
  nothing (no second table, the same coverage sets, database handle and table name), and a
  decorated method called on an initialised store does not call it. On a store that is not
  initialised, \<^verbatim>\<open>setup\<close> leaves a ready store with an empty table, and every operation
  that is \<^verbatim>\<open>setup\<close>, carries the decorator \<^verbatim>\<open>requires_setup\<close>, or calls a decorated
  method runs \<^verbatim>\<open>setup\<close> before its work (\<^verbatim>\<open>append_uniq\<close> and \<^verbatim>\<open>append_uniq_group\<close>
  once their argument checks have passed): the call leaves what it leaves after an explicit
  \<^verbatim>\<open>setup\<close>, an initialised store. \<^verbatim>\<open>add_observer\<close>, \<^verbatim>\<open>get_observer_id\<close> and the
  two composite operations when they reject their arguments leave the store uninitialised.
  No operation undoes the initialisation.
\<close>

theorem setup_once_and_lazy:
  "(initialized s \<longrightarrow> setup_kb E s = s \<and> requires_setup E method s = method s)
   \<and> setup_kb E (setup_kb E s) = setup_kb E s
   \<and> (\<not> initialized s \<longrightarrow> ready (setup_kb E s) \<and> table (setup_kb E s) = [])
   \<and> (\<not> initialized s \<and> triggers_setup op \<longrightarrow>
         state_after E op s = state_after E op (setup_kb E s)
       \<and> initialized (state_after E op s))
   \<and> (\<not> initialized s \<and> \<not> triggers_setup op \<longrightarrow> \<not> initialized (state_after E op s))
   \<and> (initialized s \<longrightarrow> initialized (state_after E op s))"
proof -
  have idem: "initialized s \<longrightarrow> setup_kb E s = s \<and> requires_setup E method s = method s"
    by (simp add: setup_kb_idem requires_setup_initialized)
  have twice: "setup_kb E (setup_kb E s) = setup_kb E s"
    by (simp add: setup_kb_idem)
  have fresh: "\<not> initialized s \<longrightarrow> ready (setup_kb E s) \<and> table (setup_kb E s) = []"
    by (simp add: setup_kb_def ready_def table_def create_table_def map_of_put_key Let_def)
  have lazy: "state_after E op s = state_after E op (setup_kb E s)" if "triggers_setup op"
  proof (cases op)
    case (Op_append_uniq a b i filter_by)
    with that show ?thesis using lazy_basic(5) [of i filter_by E a b s] by simp
  next
    case (Op_append_uniq_group a b i group_klass)
    with that show ?thesis
      using lazy_basic(6) [of i E a b _ s] by (cases group_klass) simp_all
  next
    case Op_setup
    then show ?thesis by (simp add: twice)
  next
    case (Op_add_observer observer)
    with that show ?thesis by simp
  next
    case Op_get_observer_id
    with that show ?thesis by simp
  qed (simp_all add: lazy_decorated [symmetric] lazy_basic(1-4) [symmetric])
  have triggered: "\<not> initialized s \<and> triggers_setup op \<longrightarrow>
         state_after E op s = state_after E op (setup_kb E s)
       \<and> initialized (state_after E op s)"
    using lazy state_after_initialized [of "setup_kb E s" E op] by simp
  have untouched: "\<not> initialized (state_after E op s)"
    if "\<not> initialized s" "\<not> triggers_setup op"
  proof (cases op)
    case (Op_append_uniq a b i filter_by)
    with that show ?thesis by (auto simp: append_uniq_def FILTERS_def)
  next
    case (Op_append_uniq_group a b i group_klass)
    with that show ?thesis
      by (cases group_klass) (auto simp: append_uniq_group_def)
  next
    case (Op_add_observer observer)
    with that show ?thesis by (simp add: add_observer_def get_observer_id_def)
  next
    case Op_get_observer_id
    with that show ?thesis by (simp add: get_observer_id_def)
  qed (use that in simp_all)
  from idem twice fresh triggered untouched state_after_initialized [of s E op]
  show ?thesis by blast
qed

theorem setup_once_and_lazy_witness:
  "\<not> initialized (init_kb [] 0 :: info list kb)
   \<and> triggers_setup (Op_get_all_vulns :: info list operation)
   \<and> initialized (state_after E0 Op_get_all_vulns (init_kb [] 0))
   \<and> \<not> triggers_setup (Op_get_observer_id :: info list operation)
   \<and> \<not> initialized (state_after E0 Op_get_observer_id (init_kb [] 0))
   \<and> ready (setup_kb E0 (init_kb [] 0))
   \<and> initialized (setup_kb E0 (init_kb [] 0))
   \<and> length (dbms (setup_kb E0 (setup_kb E0 (init_kb [] 0)))) = 1"
proof -
  let ?s0 = "init_kb [] 0 :: info list kb"
  have n0: "\<not> initialized ?s0" by (simp add: init_kb_def)
  have t1: "triggers_setup (Op_get_all_vulns :: info list operation)" by simp
  have t2: "\<not> triggers_setup (Op_get_observer_id :: info list operation)" by simp
  have a: "initialized (state_after E0 Op_get_all_vulns ?s0)" and r: "ready (setup_kb E0 ?s0)"
    using setup_once_and_lazy [where s = ?s0 and E = E0 and op = Op_get_all_vulns] n0 t1
    by blast+
  have b: "\<not> initialized (state_after E0 Op_get_observer_id ?s0)"
    using setup_once_and_lazy [where s = ?s0 and E = E0 and op = Op_get_observer_id] n0 t2
    by blast
  have "setup_kb E0 (setup_kb E0 ?s0) = setup_kb E0 ?s0"
    using setup_once_and_lazy [where s = ?s0 and E = E0 and op = Op_get_observer_id] by blast
  then have d: "length (dbms (setup_kb E0 (setup_kb E0 ?s0))) = 1"
    by (simp add: setup_kb_def init_kb_def create_table_def Let_def)
  from n0 t1 t2 a r b d show ?thesis by simp
qed

section \<open>Known URLs\<close>

text \<open>
  C9: for every URL argument, \<^verbatim>\<open>add_url\<close> on a ready store hands the ADD_URL
  notification to every registered observer whether or not the URL is already known; the
  value returned says whether the URL was new. The notification comes before the set is
  touched: when the set is missing, the call fails after the observers were told.
\<close>

theorem add_url_always_notifies:
  "(ready s \<longrightarrow>
      fst (add_url E (URL u) s) = Inr (u \<notin> set (known_urls s))
    \<and> notified (snd (add_url E (URL u) s))
        = notified s @ map (\<lambda>(oid, observer). (observer, ADD_URL u)) (observers s)
    \<and> known_urls (snd (add_url E (URL u) s))
        = (if u \<in> set (known_urls s) then known_urls s else known_urls s @ [u]))
   \<and> (initialized s \<and> urls s = None \<longrightarrow>
        add_url E (URL u) s = (Inl AttributeError, notify_observers (ADD_URL u) s))"
  by (auto simp: add_url_def requires_setup_def ready_def known_urls_def diskset_add_def
      notified_notify Let_def)

theorem add_url_always_notifies_witness:
  "ready (ex_store ([] :: info list row list))
   \<and> fst (add_url E0 (URL ''http://host/a'') (ex_store ([] :: info list row list))) = Inr True
   \<and> ready (snd (add_url E0 (URL ''http://host/a'') (ex_store ([] :: info list row list))))
   \<and> fst (add_url E0 (URL ''http://host/a'')
            (snd (add_url E0 (URL ''http://host/a'') (ex_store ([] :: info list row list))))) = Inr False
   \<and> notified (snd (add_url E0 (URL ''http://host/a'')
            (snd (add_url E0 (URL ''http://host/a'') (ex_store ([] :: info list row list))))))
      = [(''observer'', ADD_URL ''http://host/a''), (''observer'', ADD_URL ''http://host/a'')]"
proof -
  let ?s0 = "ex_store ([] :: info list row list)"
  let ?s1 = "snd (add_url E0 (URL ''http://host/a'') ?s0)"
  have r0: "ready ?s0" by simp
  have s1: "?s1 = (notify_observers (ADD_URL ''http://host/a'') ?s0)\<lparr>urls := Some [''http://host/a'']\<rparr>"
    by (simp add: add_url_ready)
  have r1: "ready ?s1"
    unfolding s1 by (simp add: ready_urls_update ready_notify)
  have facts: "known_urls ?s1 = [''http://host/a'']" "observers ?s1 = [(1, ''observer'')]"
    "notified ?s1 = [(''observer'', ADD_URL ''http://host/a'')]"
    unfolding s1 by (simp_all add: known_urls_def notified_notify)
  show ?thesis
    using add_url_always_notifies [of ?s0 E0 "''http://host/a''"]
          add_url_always_notifies [of ?s1 E0 "''http://host/a''"] r0 r1 facts
    by simp
qed

section \<open>Records that are not InfoSets\<close>




end
